theory Spec2Isabelle
  imports Main "HOL-Library.Word"
begin

unbundle bit_operations_syntax

section \<open>Common vocabulary\<close>

text \<open>
  Go values used throughout the library.  An \<open>error\<close> value is kept symbolic: the text
  built by \<open>fmt.Errorf\<close> is abbreviated to a short ASCII label naming the place that
  raised it; \<open>io.EOF\<close> and \<open>io.ErrUnexpectedEOF\<close> are kept apart because the code
  compares against them; \<open>AtOffset e p\<close> is \<open>e\<close> with the file offset \<open>p\<close> appended by
  \<open>Decoder.SetError\<close>.  A nil error is \<open>None\<close>.

  A Go panic (a failed \<open>DoAssert\<close>, \<open>logrus.Panic\<close>, \<open>panic\<close>, an index or slice
  expression out of range) ends the call without a return value: it is the result
  \<open>Panic\<close>; a normal return is \<open>Ok\<close>.
\<close>

type_synonym byte = "8 word"
type_synonym uint16 = "16 word"
type_synonym uint32 = "32 word"
type_synonym int64 = "64 word"

datatype error = io_EOF | io_ErrUnexpectedEOF | Errorf string | AtOffset error int64

datatype 'a result = Panic | Ok 'a

datatype ByteOrder = LittleEndian | BigEndian

datatype IsImplicitVR = ImplicitVR | ExplicitVR | UnknownVR

section \<open>Transfer-syntax resolver (dicomio/transfersyntax.go)\<close>

text \<open>
  Modelled from the spec: package \<open>dicomuid\<close> is not part of the sources at hand.  Its
  four transfer-syntax constants carry the UIDs of the DICOM standard (the spec quotes
  the first two), a registry entry carries the category of the UID, and the registry
  itself (\<open>dicomuid.Lookup\<close>) is a parameter of the functions below: \<open>None\<close> is its
  error return for a UID it does not know.
\<close>

definition ImplicitVRLittleEndian :: string where
  "ImplicitVRLittleEndian = ''1.2.840.10008.1.2''"

definition ExplicitVRLittleEndian :: string where
  "ExplicitVRLittleEndian = ''1.2.840.10008.1.2.1''"

definition ExplicitVRBigEndian :: string where
  "ExplicitVRBigEndian = ''1.2.840.10008.1.2.2''"

definition DeflatedExplicitVRLittleEndian :: string where
  "DeflatedExplicitVRLittleEndian = ''1.2.840.10008.1.2.1.99''"

datatype UIDType = TypeTransferSyntax | TypeOther string

record UIDInfo =
  UID :: string
  Type :: UIDType

type_synonym uid_registry = "string \<Rightarrow> UIDInfo option"

definition CanonicalTransferSyntaxUID :: "uid_registry \<Rightarrow> string \<Rightarrow> string \<times> error option" where
  "CanonicalTransferSyntaxUID Lookup uid =
     (if uid = ImplicitVRLittleEndian \<or> uid = ExplicitVRLittleEndian
         \<or> uid = ExplicitVRBigEndian \<or> uid = DeflatedExplicitVRLittleEndian
      then (uid, None)
      else (case Lookup uid of
              None \<Rightarrow> ('''', None)
            | Some e \<Rightarrow>
                if Type e \<noteq> TypeTransferSyntax
                then ('''', Some (Errorf ''dicom.CanonicalTransferSyntaxUID: not a transfer syntax''))
                else (ExplicitVRLittleEndian, None)))"

definition ParseTransferSyntaxUID ::
    "uid_registry \<Rightarrow> string \<Rightarrow> (ByteOrder option \<times> IsImplicitVR \<times> error option) result" where
  "ParseTransferSyntaxUID Lookup uid =
     (case CanonicalTransferSyntaxUID Lookup uid of
        (canonical, Some err) \<Rightarrow> Ok (None, UnknownVR, Some err)
      | (canonical, None) \<Rightarrow>
          if canonical = ImplicitVRLittleEndian then Ok (Some LittleEndian, ImplicitVR, None)
          else if canonical = DeflatedExplicitVRLittleEndian \<or> canonical = ExplicitVRLittleEndian
            then Ok (Some LittleEndian, ExplicitVR, None)
          else if canonical = ExplicitVRBigEndian then Ok (Some BigEndian, ExplicitVR, None)
          else Panic)"

section \<open>Character-set resolver\<close>

text \<open>
  The table \<open>htmlEncodingNames\<close> in source order.  A text decoder of
  \<open>golang.org/x/text/encoding\<close> is represented by its method \<open>Bytes\<close>, a function from
  the encoded bytes to the UTF-8 bytes (\<open>None\<close> when it reports an error);
  \<open>htmlindex.Get\<close> followed by \<open>NewDecoder\<close> belongs to that library and is a parameter
  (\<open>None\<close> is the error return of \<open>Get\<close>).  A nil decoder pointer is \<open>None\<close>.
\<close>

definition htmlEncodingNames :: "(string \<times> string) list" where
  "htmlEncodingNames =
    [(''ISO 2022 IR 6'', ''iso-8859-1''),
     (''ISO_IR 13'', ''shift_jis''),
     (''ISO 2022 IR 13'', ''shift_jis''),
     (''ISO_IR 100'', ''iso-8859-1''),
     (''ISO 2022 IR 100'', ''iso-8859-1''),
     (''ISO_IR 101'', ''iso-8859-2''),
     (''ISO 2022 IR 101'', ''iso-8859-2''),
     (''ISO_IR 109'', ''iso-8859-3''),
     (''ISO 2022 IR 109'', ''iso-8859-3''),
     (''ISO_IR 110'', ''iso-8859-4''),
     (''ISO 2022 IR 110'', ''iso-8859-4''),
     (''ISO_IR 126'', ''iso-ir-126''),
     (''ISO 2022 IR 126'', ''iso-ir-126''),
     (''ISO_IR 127'', ''iso-ir-127''),
     (''ISO 2022 IR 127'', ''iso-ir-127''),
     (''ISO_IR 138'', ''iso-ir-138''),
     (''ISO 2022 IR 138'', ''iso-ir-138''),
     (''ISO_IR 144'', ''iso-ir-144''),
     (''ISO 2022 IR 144'', ''iso-ir-144''),
     (''ISO_IR 148'', ''iso-ir-148''),
     (''ISO 2022 IR 148'', ''iso-ir-148''),
     (''ISO 2022 IR 149'', ''euc-kr''),
     (''ISO 2022 IR 159'', ''iso-2022-jp''),
     (''ISO_IR 166'', ''iso-ir-166''),
     (''ISO 2022 IR 166'', ''iso-ir-166''),
     (''ISO 2022 IR 87'', ''iso-2022-jp''),
     (''ISO_IR 192'', ''utf-8''),
     (''GB18030'', ''utf-8'')]"

type_synonym encoding_Decoder = "byte list \<Rightarrow> byte list option"

type_synonym htmlindex = "string \<Rightarrow> encoding_Decoder option"

record CodingSystem =
  Alphabetic :: "encoding_Decoder option"
  Ideographic :: "encoding_Decoder option"
  Phonetic :: "encoding_Decoder option"

definition noCodingSystem :: CodingSystem where
  "noCodingSystem = \<lparr>Alphabetic = None, Ideographic = None, Phonetic = None\<rparr>"

text \<open>
  The body of the \<open>for _, name := range encodingNames\<close> loop, with the slice
  \<open>decoders\<close> as accumulator.  \<open>Inl\<close> is the early \<open>return CodingSystem{}, err\<close>.
\<close>

fun resolveDecoders ::
    "htmlindex \<Rightarrow> string list \<Rightarrow> encoding_Decoder option list
       \<Rightarrow> (error + encoding_Decoder option list) result" where
  "resolveDecoders htmlindex_Get [] decoders = Ok (Inr decoders)"
| "resolveDecoders htmlindex_Get (name # rest) decoders =
     (case map_of htmlEncodingNames name of
        None \<Rightarrow> Ok (Inl (Errorf ''io.ParseSpecificCharacterSet: Unknown character set''))
      | Some htmlName \<Rightarrow>
          if htmlName \<noteq> ''''
          then (case htmlindex_Get htmlName of
                  None \<Rightarrow> Panic
                | Some d \<Rightarrow> resolveDecoders htmlindex_Get rest (decoders @ [Some d]))
          else resolveDecoders htmlindex_Get rest (decoders @ [None]))"

definition ParseSpecificCharacterSet ::
    "htmlindex \<Rightarrow> string list \<Rightarrow> (CodingSystem \<times> error option) result" where
  "ParseSpecificCharacterSet htmlindex_Get encodingNames =
     (case resolveDecoders htmlindex_Get encodingNames [] of
        Panic \<Rightarrow> Panic
      | Ok (Inl err) \<Rightarrow> Ok (noCodingSystem, Some err)
      | Ok (Inr decoders) \<Rightarrow>
          if length decoders = 0 then Ok (noCodingSystem, None)
          else if length decoders = 1
            then Ok (\<lparr>Alphabetic = decoders ! 0, Ideographic = decoders ! 0,
                      Phonetic = decoders ! 0\<rparr>, None)
          else if length decoders = 2
            then Ok (\<lparr>Alphabetic = decoders ! 0, Ideographic = decoders ! 1,
                      Phonetic = decoders ! 1\<rparr>, None)
          else Ok (\<lparr>Alphabetic = decoders ! 0, Ideographic = decoders ! 1,
                    Phonetic = decoders ! 2\<rparr>, None))"

section \<open>ByteStream: the decoder\<close>

text \<open>
  \<open>binary.ByteOrder\<close>: a byte slice read as an unsigned integer, and an unsigned integer
  laid out in \<open>n\<close> bytes.  Signed integers and floats are kept as the bit pattern read
  (\<open>int16\<close>, \<open>int32\<close>, \<open>float32\<close>, \<open>float64\<close> are words of that width).
\<close>

definition LittleEndian_Uint :: "byte list \<Rightarrow> 'a::len word" where
  "LittleEndian_Uint bs = foldr (\<lambda>b acc. ucast b OR push_bit 8 acc) bs 0"

definition order_Uint :: "ByteOrder \<Rightarrow> byte list \<Rightarrow> 'a::len word" where
  "order_Uint order bs =
     (case order of LittleEndian \<Rightarrow> LittleEndian_Uint bs | BigEndian \<Rightarrow> LittleEndian_Uint (rev bs))"

definition LittleEndian_Put :: "nat \<Rightarrow> 'a::len word \<Rightarrow> byte list" where
  "LittleEndian_Put n v = map (\<lambda>i. ucast (drop_bit (8 * i) v)) [0..<n]"

definition order_Put :: "ByteOrder \<Rightarrow> nat \<Rightarrow> 'a::len word \<Rightarrow> byte list" where
  "order_Put order n v =
     (case order of LittleEndian \<Rightarrow> LittleEndian_Put n v | BigEndian \<Rightarrow> rev (LittleEndian_Put n v))"

record transferSyntaxStackEntry =
  ts_byteorder :: "ByteOrder option"
  ts_implicit :: IsImplicitVR

record stackEntry =
  se_limit :: int64
  se_err :: "error option"

text \<open>
  The decoder.  Field \<open>inp\<close> stands for \<open>in\<close>, the buffered reader: it holds the bytes of
  the underlying stream that have not been read yet (a finite in-memory stream; an I/O
  failure other than end of input is outside the model).  \<open>byteorder\<close> is an interface
  value and may be nil (\<open>None\<close>).  \<open>int64\<close> fields are 64-bit words, compared through
  \<open>sint\<close>; Go's \<open>int\<close> is taken as 64 bits wide.
\<close>

record Decoder =
  inp :: "byte list"
  err :: "error option"
  byteorder :: "ByteOrder option"
  implicit :: IsImplicitVR
  limit :: int64
  pos :: int64
  codingSystem :: CodingSystem
  oldTransferSyntaxes :: "transferSyntaxStackEntry list"
  stateStack :: "stackEntry list"

definition MaxInt64 :: int64 where
  "MaxInt64 = 0x7FFFFFFFFFFFFFFF"

definition NewDecoder :: "byte list \<Rightarrow> ByteOrder option \<Rightarrow> IsImplicitVR \<Rightarrow> Decoder" where
  "NewDecoder data order impl =
     \<lparr>inp = data, err = None, byteorder = order, implicit = impl, limit = MaxInt64, pos = 0,
      codingSystem = noCodingSystem, oldTransferSyntaxes = [], stateStack = []\<rparr>"

definition NewBytesDecoder :: "byte list \<Rightarrow> ByteOrder option \<Rightarrow> IsImplicitVR \<Rightarrow> Decoder" where
  "NewBytesDecoder data order impl = NewDecoder data order impl"

definition SetError :: "error option \<Rightarrow> Decoder \<Rightarrow> Decoder" where
  "SetError e d =
     (case e of
        None \<Rightarrow> d
      | Some x \<Rightarrow>
          if err d = None
          then d\<lparr>err := Some (if x \<noteq> io_EOF then AtOffset x (pos d) else x)\<rparr>
          else d)"

definition SetErrorf :: "string \<Rightarrow> Decoder \<Rightarrow> Decoder" where
  "SetErrorf msg d = SetError (Some (Errorf msg)) d"

definition TransferSyntax :: "Decoder \<Rightarrow> ByteOrder option \<times> IsImplicitVR" where
  "TransferSyntax d = (byteorder d, implicit d)"

definition PushTransferSyntax :: "ByteOrder option \<Rightarrow> IsImplicitVR \<Rightarrow> Decoder \<Rightarrow> Decoder" where
  "PushTransferSyntax order impl d =
     d\<lparr>oldTransferSyntaxes :=
          oldTransferSyntaxes d @ [\<lparr>ts_byteorder = byteorder d, ts_implicit = implicit d\<rparr>],
       byteorder := order, implicit := impl\<rparr>"

definition PopTransferSyntax :: "Decoder \<Rightarrow> Decoder result" where
  "PopTransferSyntax d =
     (if oldTransferSyntaxes d = [] then Panic
      else let e = last (oldTransferSyntaxes d)
           in Ok (d\<lparr>byteorder := ts_byteorder e, implicit := ts_implicit e,
                    oldTransferSyntaxes := butlast (oldTransferSyntaxes d)\<rparr>))"

definition SetCodingSystem :: "CodingSystem \<Rightarrow> Decoder \<Rightarrow> Decoder" where
  "SetCodingSystem cs d = d\<lparr>codingSystem := cs\<rparr>"

definition Decoder_len :: "Decoder \<Rightarrow> int64" where
  "Decoder_len d = limit d - pos d"

definition BytesRead :: "Decoder \<Rightarrow> int64" where
  "BytesRead d = pos d"

text \<open>
  \<open>Decoder.Read(p)\<close>; \<open>n\<close> is \<open>len(p)\<close> and the bytes returned are those stored into
  \<open>p\<close>.  The slice expression \<open>p[:desired]\<close> panics for a negative \<open>desired\<close>.  The
  buffered reader hands out every byte asked for while bytes remain and \<open>(0, io.EOF)\<close>
  at the end of the stream (the real one may return fewer bytes per call; every caller
  loops until it has all of them, so the results agree).
\<close>

definition Decoder_Read :: "nat \<Rightarrow> Decoder \<Rightarrow> ((byte list \<times> error option) \<times> Decoder) result" where
  "Decoder_Read n d =
     (let desired = Decoder_len d in
      if desired = 0 then (if n = 0 then Ok (([], None), d) else Ok (([], Some io_EOF), d))
      else if sint desired < int n \<and> sint desired < 0 then Panic
      else let m = (if sint desired < int n then nat (sint desired) else n) in
           if m = 0 then Ok (([], None), d)
           else if inp d = [] then Ok (([], Some io_EOF), d)
           else let bs = take m (inp d)
                in Ok ((bs, None), d\<lparr>inp := drop m (inp d), pos := pos d + of_nat (length bs)\<rparr>))"

definition Decoder_EOF :: "Decoder \<Rightarrow> bool" where
  "Decoder_EOF d =
     (if err d \<noteq> None then True
      else if sint (limit d - pos d) \<le> 0 then True
      else inp d = [])"

text \<open>
  \<open>io.ReadFull(d, buf)\<close>, the loop of \<open>io.ReadAtLeast\<close> with \<open>min = len(buf)\<close>:
  \<open>for n < min && err == nil { nn, err = r.Read(buf[n:]); n += nn }\<close>.  It ends because a
  \<open>Read\<close> of at least one byte that reports no error returns at least one byte.
\<close>

lemma Decoder_Read_progress:
  "Decoder_Read n d = Ok ((bs, None), d') \<Longrightarrow> 0 < n \<Longrightarrow> bs \<noteq> []"
  by (auto simp: Decoder_Read_def Let_def signed_eq_0_iff split: if_splits)

function ReadFull_loop ::
    "nat \<Rightarrow> byte list \<Rightarrow> Decoder \<Rightarrow> ((byte list \<times> error option) \<times> Decoder) result" where
  "ReadFull_loop want buf d =
     (if length buf < want
      then (case Decoder_Read (want - length buf) d of
              Panic \<Rightarrow> Panic
            | Ok ((bs, e), d') \<Rightarrow>
                if e = None then ReadFull_loop want (buf @ bs) d'
                else Ok ((buf @ bs, e), d'))
      else Ok ((buf, None), d))"
  by pat_completeness auto
termination
proof (relation "measure (\<lambda>(want, buf, d). want - length buf)")
  show "wf (measure (\<lambda>(want, buf, d). want - length buf))" by simp
next
  fix want :: nat and buf :: "byte list" and d x2 x1 d' bs e
  assume "length buf < want" "Decoder_Read (want - length buf) d = Ok x2"
    "(x1, d') = x2" "(bs, e) = x1" "e = None"
  then have "bs \<noteq> []"
    using Decoder_Read_progress[of "want - length buf" d bs d'] by auto
  then show "((want, buf @ bs, d'), (want, buf, d)) \<in> measure (\<lambda>(want, buf, d). want - length buf)"
    using \<open>length buf < want\<close> by (cases bs) auto
qed

declare ReadFull_loop.simps [simp del]

definition io_ReadFull :: "nat \<Rightarrow> Decoder \<Rightarrow> ((byte list \<times> error option) \<times> Decoder) result" where
  "io_ReadFull want d =
     (case ReadFull_loop want [] d of
        Panic \<Rightarrow> Panic
      | Ok ((buf, e), d') \<Rightarrow>
          if want \<le> length buf then Ok ((buf, None), d')
          else if 0 < length buf \<and> e = Some io_EOF then Ok ((buf, Some io_ErrUnexpectedEOF), d')
          else Ok ((buf, e), d'))"

text \<open>
  \<open>binary.Read(d, d.byteorder, &v)\<close> for a fixed-size \<open>v\<close> of \<open>sz\<close> bytes: the bytes are
  read in full first, and \<open>v\<close> (zero before the call) is assigned only then.  A single
  byte is stored without consulting the byte order; a wider value calls a method of the
  order, which panics on a nil order.
\<close>

definition binary_Read :: "nat \<Rightarrow> Decoder \<Rightarrow> (('a::len word \<times> error option) \<times> Decoder) result" where
  "binary_Read sz d =
     (case io_ReadFull sz d of
        Panic \<Rightarrow> Panic
      | Ok ((bs, e), d') \<Rightarrow>
          if e \<noteq> None then Ok ((0, e), d')
          else if sz = 1 then Ok ((LittleEndian_Uint bs, None), d')
          else (case byteorder d of
                  None \<Rightarrow> Panic
                | Some order \<Rightarrow> Ok ((order_Uint order bs, None), d')))"


definition ReadUInt32 :: "Decoder \<Rightarrow> (uint32 \<times> Decoder) result" where
  "ReadUInt32 d =
     (case binary_Read 4 d of
        Panic \<Rightarrow> Panic
      | Ok ((v, e), d') \<Rightarrow> if e \<noteq> None then Ok (v, SetError e d') else Ok (v, d'))"

definition ReadInt32 :: "Decoder \<Rightarrow> (32 word \<times> Decoder) result" where
  "ReadInt32 d =
     (case binary_Read 4 d of
        Panic \<Rightarrow> Panic
      | Ok ((v, e), d') \<Rightarrow> if e \<noteq> None then Ok (v, SetError e d') else Ok (v, d'))"

definition ReadUInt16 :: "Decoder \<Rightarrow> (uint16 \<times> Decoder) result" where
  "ReadUInt16 d =
     (case binary_Read 2 d of
        Panic \<Rightarrow> Panic
      | Ok ((v, e), d') \<Rightarrow> if e \<noteq> None then Ok (v, SetError e d') else Ok (v, d'))"

definition ReadInt16 :: "Decoder \<Rightarrow> (16 word \<times> Decoder) result" where
  "ReadInt16 d =
     (case binary_Read 2 d of
        Panic \<Rightarrow> Panic
      | Ok ((v, e), d') \<Rightarrow> if e \<noteq> None then Ok (v, SetError e d') else Ok (v, d'))"

definition ReadFloat32 :: "Decoder \<Rightarrow> (32 word \<times> Decoder) result" where
  "ReadFloat32 d =
     (case binary_Read 4 d of
        Panic \<Rightarrow> Panic
      | Ok ((v, e), d') \<Rightarrow> if e \<noteq> None then Ok (v, SetError e d') else Ok (v, d'))"

definition ReadFloat64 :: "Decoder \<Rightarrow> (64 word \<times> Decoder) result" where
  "ReadFloat64 d =
     (case binary_Read 8 d of
        Panic \<Rightarrow> Panic
      | Ok ((v, e), d') \<Rightarrow> if e \<noteq> None then Ok (v, SetError e d') else Ok (v, d'))"

text \<open>
  \<open>ReadBytes(length)\<close>.  \<open>make([]byte, length)\<close> panics for a negative length.  The
  loop \<open>for len(remaining) > 0\<close> carries the number of bytes still to fill and the bytes
  filled so far; the slice returned is \<open>v\<close>, whose unfilled tail is zero.  A nil slice
  is the empty list.
\<close>

function ReadBytes_loop ::
    "nat \<Rightarrow> byte list \<Rightarrow> Decoder \<Rightarrow> ((nat \<times> byte list) \<times> Decoder) result" where
  "ReadBytes_loop remaining filled d =
     (if 0 < remaining
      then (case Decoder_Read remaining d of
              Panic \<Rightarrow> Panic
            | Ok ((bs, e), d') \<Rightarrow>
                if e \<noteq> None then Ok ((remaining, filled @ bs), SetError e d')
                else if remaining < length bs then Panic
                else ReadBytes_loop (remaining - length bs) (filled @ bs) d')
      else Ok ((remaining, filled), d))"
  by pat_completeness auto
termination
proof (relation "measure (\<lambda>(remaining, filled, d). remaining)")
  show "wf (measure (\<lambda>(remaining, filled, d). remaining))" by simp
next
  fix remaining :: nat and filled :: "byte list" and d x2 x1 d' bs e
  assume "0 < remaining" "Decoder_Read remaining d = Ok x2" "(x1, d') = x2" "(bs, e) = x1"
    "\<not> e \<noteq> None"
  then have "bs \<noteq> []"
    using Decoder_Read_progress[of remaining d bs d'] by auto
  then show "((remaining - length bs, filled @ bs, d'), (remaining, filled, d))
      \<in> measure (\<lambda>(remaining, filled, d). remaining)"
    using \<open>0 < remaining\<close> by (cases bs) auto
qed

declare ReadBytes_loop.simps [simp del]

definition ReadBytes :: "int64 \<Rightarrow> Decoder \<Rightarrow> (byte list \<times> Decoder) result" where
  "ReadBytes len d =
     (if sint (Decoder_len d) < sint len
      then Ok ([], SetError (Some (Errorf ''ReadBytes: requested more than available'')) d)
      else if sint len < 0 then Panic
      else (case ReadBytes_loop (nat (sint len)) [] d of
              Panic \<Rightarrow> Panic
            | Ok ((remaining, filled), d') \<Rightarrow>
                if \<not> (err d' \<noteq> None \<or> remaining = 0) then Panic
                else Ok (filled @ replicate (nat (sint len) - length filled) 0, d')))"

text \<open>
  \<open>Skip(length)\<close>; \<open>junkSize\<close> is \<open>min (1 << 16) length\<close>, and \<open>make\<close> panics when it
  is negative.
\<close>

function Skip_loop :: "nat \<Rightarrow> nat \<Rightarrow> Decoder \<Rightarrow> (nat \<times> Decoder) result" where
  "Skip_loop junkSize remaining d =
     (if 0 < remaining
      then (case Decoder_Read (if remaining < junkSize then remaining else junkSize) d of
              Panic \<Rightarrow> Panic
            | Ok ((bs, e), d') \<Rightarrow>
                if e \<noteq> None then Ok (remaining, SetError e d')
                else if \<not> 0 < length bs then Panic
                else Skip_loop junkSize (remaining - length bs) d')
      else Ok (remaining, d))"
  by pat_completeness auto
termination
  by (relation "measure (\<lambda>(junkSize, remaining, d). remaining)") auto

declare Skip_loop.simps [simp del]

definition Skip :: "int64 \<Rightarrow> Decoder \<Rightarrow> Decoder result" where
  "Skip len d =
     (if sint (Decoder_len d) < sint len
      then Ok (SetError (Some (Errorf ''Skip: requested more than available'')) d)
      else if sint len < 0 then Panic
      else let junkSize = (if sint len < 65536 then nat (sint len) else 65536) in
           (case Skip_loop junkSize (nat (sint len)) d of
              Panic \<Rightarrow> Panic
            | Ok (remaining, d') \<Rightarrow>
                if \<not> (err d' \<noteq> None \<or> remaining = 0) then Panic else Ok d'))"

text \<open>Go strings are byte strings: a \<open>string\<close> here is the list of its bytes as characters.\<close>

definition string_of_bytes :: "byte list \<Rightarrow> string" where
  "string_of_bytes bs = map (\<lambda>b. char_of (unat b)) bs"

definition bytes_of_string :: "string \<Rightarrow> byte list" where
  "bytes_of_string s = map of_char s"

definition internalReadString ::
    "encoding_Decoder option \<Rightarrow> int64 \<Rightarrow> Decoder \<Rightarrow> (string \<times> Decoder) result" where
  "internalReadString sd len d =
     (case ReadBytes len d of
        Panic \<Rightarrow> Panic
      | Ok (bytes, d') \<Rightarrow>
          if length bytes = 0 then Ok ('''', d')
          else (case sd of
                  None \<Rightarrow> Ok (string_of_bytes bytes, d')
                | Some sd_Bytes \<Rightarrow>
                    (case sd_Bytes bytes of
                       None \<Rightarrow> Ok ('''', SetError (Some (Errorf ''encoding: decoder error'')) d')
                     | Some bytes' \<Rightarrow> Ok (string_of_bytes bytes', d'))))"

datatype CodingSystemType = AlphabeticCodingSystem | IdeographicCodingSystem | PhoneticCodingSystem

definition ReadStringWithCodingSystem ::
    "CodingSystemType \<Rightarrow> int64 \<Rightarrow> Decoder \<Rightarrow> (string \<times> Decoder) result" where
  "ReadStringWithCodingSystem csType len d =
     (case csType of
        AlphabeticCodingSystem \<Rightarrow> internalReadString (Alphabetic (codingSystem d)) len d
      | IdeographicCodingSystem \<Rightarrow> internalReadString (Ideographic (codingSystem d)) len d
      | PhoneticCodingSystem \<Rightarrow> internalReadString (Phonetic (codingSystem d)) len d)"

definition ReadString :: "int64 \<Rightarrow> Decoder \<Rightarrow> (string \<times> Decoder) result" where
  "ReadString len d = internalReadString (Ideographic (codingSystem d)) len d"

text \<open>
  \<open>PushLimit(bytes)\<close> and \<open>PopLimit()\<close>.  The sum \<open>d.pos + bytes\<close> wraps around as Go's
  \<open>int64\<close> does.  Indexing the empty \<open>stateStack\<close> panics.
\<close>

definition PushLimit :: "int64 \<Rightarrow> Decoder \<Rightarrow> Decoder" where
  "PushLimit bytes d =
     (let newLimit = pos d + bytes;
          exceeds = sint (limit d) < sint newLimit;
          d1 = (if exceeds
                then SetError (Some (Errorf ''trying to read bytes beyond buffer end'')) d
                else d);
          newLimit' = (if exceeds then pos d else newLimit)
      in d1\<lparr>stateStack := stateStack d1 @ [\<lparr>se_limit = limit d1, se_err = err d1\<rparr>],
            limit := newLimit', err := None\<rparr>)"

definition PopLimit :: "Decoder \<Rightarrow> Decoder result" where
  "PopLimit d =
     (case (if sint (pos d) < sint (limit d) then Skip (limit d - pos d) d else Ok d) of
        Panic \<Rightarrow> Panic
      | Ok d1 \<Rightarrow>
          if stateStack d1 = [] then Panic
          else let e = last (stateStack d1)
               in Ok (d1\<lparr>limit := se_limit e,
                         err := (if se_err e \<noteq> None then se_err e else err d1),
                         stateStack := butlast (stateStack d1)\<rparr>))"

definition Finish :: "Decoder \<Rightarrow> error option" where
  "Finish d =
     (if err d \<noteq> None then err d
      else if \<not> Decoder_EOF d then Some (Errorf ''Decoder found junk'')
      else None)"

section \<open>Tags and the data dictionary (dicomtag/tag.go)\<close>

record Tag =
  Group :: uint16
  Element :: uint16

record TagInfo =
  ti_Tag :: Tag
  ti_VR :: string
  ti_Name :: string
  ti_VM :: string

text \<open>
  Modelled from the spec: the table of standard tags (\<open>tagDict\<close>, filled by
  \<open>maybeInitTagDict\<close>) and the named tags are declared in a file that is not part of the
  sources at hand.  The table is a parameter of every function that consults it.  The
  named tags carry the numbers the spec gives; \<open>PixelData\<close>, \<open>SpecificCharacterSet\<close> and
  the meta-header tags those of the DICOM standard.
\<close>

type_synonym tag_dict = "Tag \<Rightarrow> TagInfo option"

definition Item :: Tag where
  "Item = \<lparr>Group = 0xFFFE, Element = 0xE000\<rparr>"

definition ItemDelimitationItem :: Tag where
  "ItemDelimitationItem = \<lparr>Group = 0xFFFE, Element = 0xE00D\<rparr>"

definition SequenceDelimitationItem :: Tag where
  "SequenceDelimitationItem = \<lparr>Group = 0xFFFE, Element = 0xE0DD\<rparr>"

definition PixelData :: Tag where
  "PixelData = \<lparr>Group = 0x7FE0, Element = 0x0010\<rparr>"

definition SpecificCharacterSet :: Tag where
  "SpecificCharacterSet = \<lparr>Group = 0x0008, Element = 0x0005\<rparr>"

definition Find :: "tag_dict \<Rightarrow> Tag \<Rightarrow> TagInfo option" where
  "Find tagDict tag =
     (case tagDict tag of
        Some entry \<Rightarrow> Some entry
      | None \<Rightarrow>
          if Group tag mod 2 = 0 \<and> Element tag = 0x0000
          then Some \<lparr>ti_Tag = tag, ti_VR = ''UL'', ti_Name = ''GenericGroupLength'', ti_VM = ''1''\<rparr>
          else None)"

datatype VRKind =
    VRStringList | VRBytes | VRString | VRUInt16List | VRUInt32List | VRInt16List
  | VRInt32List | VRFloat32List | VRFloat64List | VRSequence | VRItem | VRTagList
  | VRDate | VRPixelData

definition GetVRKind :: "Tag \<Rightarrow> string \<Rightarrow> VRKind" where
  "GetVRKind tag vr =
     (if tag = Item then VRItem
      else if tag = PixelData then VRPixelData
      else if vr = ''DA'' then VRDate
      else if vr = ''AT'' then VRTagList
      else if vr = ''OW'' \<or> vr = ''OB'' then VRBytes
      else if vr = ''LT'' \<or> vr = ''UT'' then VRString
      else if vr = ''UL'' then VRUInt32List
      else if vr = ''SL'' then VRInt32List
      else if vr = ''US'' then VRUInt16List
      else if vr = ''SS'' then VRInt16List
      else if vr = ''FL'' then VRFloat32List
      else if vr = ''FD'' then VRFloat64List
      else if vr = ''SQ'' then VRSequence
      else VRStringList)"

section \<open>Elements\<close>

text \<open>
  An element value is an \<open>interface{}\<close>: one constructor per dynamic type that the
  reader stores or the writer accepts.  Floats are kept as their bit patterns.
\<close>

record PixelDataInfo =
  Offsets :: "uint32 list"
  Frames :: "byte list list"

datatype Value =
    VString string
  | VBytes "byte list"
  | VUInt16 uint16
  | VUInt32 uint32
  | VInt16 "16 word"
  | VInt32 "32 word"
  | VFloat32 "32 word"
  | VFloat64 "64 word"
  | VTag Tag
  | VPixelData PixelDataInfo
  | VElement Element
and Element =
    MkElement (Tag: Tag) (Value: "Value list") (VR: string) (UndefinedLength: bool)

record ReadOptions =
  DropPixelData :: bool
  ReturnTags :: "Tag list option"
  StopAtTag :: "Tag option"

definition noReadOptions :: ReadOptions where
  "noReadOptions = \<lparr>DropPixelData = False, ReturnTags = None, StopAtTag = None\<rparr>"

definition UndefinedLength32 :: uint32 where
  "UndefinedLength32 = 0xffffffff"

definition ItemSeqGroup :: uint16 where
  "ItemSeqGroup = 0xFFFE"

text \<open>
  What \<open>ReadElement\<close> returns: the nil pointer, the pointer to the distinguished
  \<open>endOfDataElement\<close> (recognised by pointer comparison), or a freshly read element.
\<close>

datatype ReadResult = NilElement | EndOfDataElement | Elem Element

definition endOfDataElement :: Element where
  "endOfDataElement = MkElement \<lparr>Group = 0x7fff, Element = 0x7fff\<rparr> [] '''' False"

section \<open>ByteStream: the encoder\<close>

text \<open>
  The encoder.  Field \<open>out\<close> is the writer, taken to be an in-memory buffer that never
  fails (as the \<open>bytes.Buffer\<close> of \<open>NewBytesEncoder\<close>): it holds the bytes written so far.
  The fields that share a name with a field of the decoder carry the prefix \<open>e_\<close>.
\<close>

record Encoder =
  e_err :: "error option"
  out :: "byte list"
  e_byteorder :: "ByteOrder option"
  e_implicit :: IsImplicitVR
  e_oldTransferSyntaxes :: "transferSyntaxStackEntry list"

definition NativeByteOrder :: "ByteOrder option" where
  "NativeByteOrder = Some LittleEndian"

definition NewBytesEncoder :: "ByteOrder option \<Rightarrow> IsImplicitVR \<Rightarrow> Encoder" where
  "NewBytesEncoder order impl =
     \<lparr>e_err = None, out = [], e_byteorder = order, e_implicit = impl, e_oldTransferSyntaxes = []\<rparr>"

definition Encoder_TransferSyntax :: "Encoder \<Rightarrow> ByteOrder option \<times> IsImplicitVR" where
  "Encoder_TransferSyntax e = (e_byteorder e, e_implicit e)"

definition Encoder_PushTransferSyntax :: "ByteOrder option \<Rightarrow> IsImplicitVR \<Rightarrow> Encoder \<Rightarrow> Encoder" where
  "Encoder_PushTransferSyntax order impl e =
     e\<lparr>e_oldTransferSyntaxes :=
          e_oldTransferSyntaxes e @ [\<lparr>ts_byteorder = e_byteorder e, ts_implicit = e_implicit e\<rparr>],
       e_byteorder := order, e_implicit := impl\<rparr>"

definition Encoder_PopTransferSyntax :: "Encoder \<Rightarrow> Encoder result" where
  "Encoder_PopTransferSyntax e =
     (if e_oldTransferSyntaxes e = [] then Panic
      else let ts = last (e_oldTransferSyntaxes e)
           in Ok (e\<lparr>e_byteorder := ts_byteorder ts, e_implicit := ts_implicit ts,
                    e_oldTransferSyntaxes := butlast (e_oldTransferSyntaxes e)\<rparr>))"

definition Encoder_SetError :: "error option \<Rightarrow> Encoder \<Rightarrow> Encoder" where
  "Encoder_SetError x e = (if x \<noteq> None \<and> e_err e = None then e\<lparr>e_err := x\<rparr> else e)"

definition Encoder_SetErrorf :: "string \<Rightarrow> Encoder \<Rightarrow> Encoder" where
  "Encoder_SetErrorf msg e = Encoder_SetError (Some (Errorf msg)) e"

definition Encoder_Error :: "Encoder \<Rightarrow> error option" where
  "Encoder_Error e = e_err e"

text \<open>
  \<open>Bytes()\<close> asserts that no transfer syntax is pushed and panics on a recorded
  error.
\<close>

definition Bytes :: "Encoder \<Rightarrow> byte list result" where
  "Bytes e =
     (if \<not> (length (e_oldTransferSyntaxes e) = 0) then Panic
      else if e_err e \<noteq> None then Panic
      else Ok (out e))"

text \<open>
  \<open>binary.Write(e.out, e.byteorder, &v)\<close> for a value of \<open>sz\<close> bytes: a single byte
  is stored without consulting the byte order; a wider value calls a method of the
  order, which panics on a nil order.  Writing to the buffer reports no error.
\<close>

definition binary_Write :: "nat \<Rightarrow> 'a::len word \<Rightarrow> Encoder \<Rightarrow> Encoder result" where
  "binary_Write sz v e =
     (if sz = 1 then Ok (e\<lparr>out := out e @ LittleEndian_Put 1 v\<rparr>)
      else (case e_byteorder e of
              None \<Rightarrow> Panic
            | Some order \<Rightarrow> Ok (e\<lparr>out := out e @ order_Put order sz v\<rparr>)))"

definition WriteByte :: "byte \<Rightarrow> Encoder \<Rightarrow> Encoder result" where
  "WriteByte v e = binary_Write 1 v e"

definition WriteUInt16 :: "uint16 \<Rightarrow> Encoder \<Rightarrow> Encoder result" where
  "WriteUInt16 v e = binary_Write 2 v e"

definition WriteUInt32 :: "uint32 \<Rightarrow> Encoder \<Rightarrow> Encoder result" where
  "WriteUInt32 v e = binary_Write 4 v e"

definition WriteInt16 :: "16 word \<Rightarrow> Encoder \<Rightarrow> Encoder result" where
  "WriteInt16 v e = binary_Write 2 v e"

definition WriteInt32 :: "32 word \<Rightarrow> Encoder \<Rightarrow> Encoder result" where
  "WriteInt32 v e = binary_Write 4 v e"

definition WriteFloat32 :: "32 word \<Rightarrow> Encoder \<Rightarrow> Encoder result" where
  "WriteFloat32 v e = binary_Write 4 v e"

definition WriteFloat64 :: "64 word \<Rightarrow> Encoder \<Rightarrow> Encoder result" where
  "WriteFloat64 v e = binary_Write 8 v e"

definition WriteString :: "string \<Rightarrow> Encoder \<Rightarrow> Encoder" where
  "WriteString v e = e\<lparr>out := out e @ bytes_of_string v\<rparr>"

definition WriteZeros :: "nat \<Rightarrow> Encoder \<Rightarrow> Encoder" where
  "WriteZeros len e = e\<lparr>out := out e @ replicate len 0\<rparr>"

definition WriteBytes :: "byte list \<Rightarrow> Encoder \<Rightarrow> Encoder" where
  "WriteBytes v e = e\<lparr>out := out e @ v\<rparr>"

section \<open>Reads consume input\<close>

text \<open>
  The loops of the element reader end because a read that leaves the decoder without an
  error has consumed its bytes.  \<open>advances k d d'\<close>: from \<open>d\<close> to \<open>d'\<close> the stream did
  not grow, the stack of limits is the same, an error present in \<open>d\<close> is still present,
  and if \<open>d'\<close> holds no error then at least \<open>k\<close> bytes were consumed.
\<close>

definition advances :: "nat \<Rightarrow> Decoder \<Rightarrow> Decoder \<Rightarrow> bool" where
  "advances k d d' =
     (length (inp d') \<le> length (inp d) \<and> stateStack d' = stateStack d
      \<and> (err d \<noteq> None \<longrightarrow> err d' \<noteq> None)
      \<and> (err d' = None \<longrightarrow> length (inp d') + k \<le> length (inp d)))"

lemma advances_refl: "advances 0 d d"
  by (simp add: advances_def)

lemma advances_trans:
  "advances j d d1 \<Longrightarrow> advances k d1 d2 \<Longrightarrow> advances (j + k) d d2"
  by (auto simp: advances_def)

lemma advances_weaken: "advances k d d' \<Longrightarrow> j \<le> k \<Longrightarrow> advances j d d'"
  by (auto simp: advances_def)

lemma advances_SetError: "advances 0 d (SetError e d)"
  by (auto simp: advances_def SetError_def split: option.splits)

lemma advances_SetError_fail: "advances k d (SetError (Some e) d)"
  by (auto simp: advances_def SetError_def split: option.splits)

lemma advances_SetError_after: "advances k d d' \<Longrightarrow> advances k d (SetError e d')"
  by (auto simp: advances_def SetError_def split: option.splits)

lemma advances_SetError_after_fail: "advances j d d' \<Longrightarrow> advances k d (SetError (Some e) d')"
  by (auto simp: advances_def SetError_def split: option.splits)

lemma Decoder_Read_consumes:
  "Decoder_Read n d = Ok ((bs, e), d') \<Longrightarrow>
   err d' = err d \<and> stateStack d' = stateStack d \<and> inp d = bs @ inp d'"
  by (auto simp: Decoder_Read_def Let_def split: if_splits)

lemma ReadFull_loop_consumes:
  "ReadFull_loop want buf d = Ok ((buf', e), d') \<Longrightarrow>
   err d' = err d \<and> stateStack d' = stateStack d
   \<and> length (inp d') + length buf' = length (inp d) + length buf
   \<and> (e = None \<longrightarrow> want \<le> length buf')"
proof (induction want buf d rule: ReadFull_loop.induct)
  case (1 want buf d)
  note run = 1(2)[unfolded ReadFull_loop.simps[of want buf d]]
  show ?case
  proof (cases "length buf < want")
    case False
    then show ?thesis using run by auto
  next
    case True
    obtain bs x d1 where rd: "Decoder_Read (want - length buf) d = Ok ((bs, x), d1)"
      using run True by (auto split: result.splits)
    note c = Decoder_Read_consumes[OF rd]
    show ?thesis
    proof (cases "x = None")
      case xN: True
      then have rec: "ReadFull_loop want (buf @ bs) d1 = Ok ((buf', e), d')"
        using run True rd by simp
      show ?thesis using 1(1)[OF True rd refl refl xN rec] c by simp
    next
      case False
      then show ?thesis using run True rd c by auto
    qed
  qed
qed

lemma io_ReadFull_consumes:
  "io_ReadFull want d = Ok ((bs, e), d') \<Longrightarrow>
   err d' = err d \<and> stateStack d' = stateStack d
   \<and> length (inp d') + length bs = length (inp d)
   \<and> (e = None \<longrightarrow> want \<le> length bs)"
  by (auto simp: io_ReadFull_def split: result.splits prod.splits if_splits
           dest!: ReadFull_loop_consumes)

lemma binary_Read_consumes:
  fixes v :: "'a::len word"
  assumes "binary_Read sz d = Ok ((v, e), d')"
  shows "err d' = err d \<and> stateStack d' = stateStack d
   \<and> length (inp d') \<le> length (inp d)
   \<and> (e = None \<longrightarrow> length (inp d') + sz \<le> length (inp d))"
  using assms
  by (auto simp: binary_Read_def split: result.splits prod.splits if_splits option.splits
           dest!: io_ReadFull_consumes)

lemma typed_read_advances:
  fixes v :: "'a::len word"
  assumes "binary_Read sz d = Ok ((v, e), d')"
  shows "advances sz d (if e \<noteq> None then SetError e d' else d')"
  using binary_Read_consumes[OF assms]
  by (auto simp: advances_def SetError_def split: option.splits)

lemma ReadUInt16_advances: "ReadUInt16 d = Ok (v, d') \<Longrightarrow> advances 2 d d'"
  by (auto simp: ReadUInt16_def split: result.splits prod.splits if_splits dest!: typed_read_advances)

lemma ReadUInt32_advances: "ReadUInt32 d = Ok (v, d') \<Longrightarrow> advances 4 d d'"
  by (auto simp: ReadUInt32_def split: result.splits prod.splits if_splits dest!: typed_read_advances)

lemma ReadInt16_advances: "ReadInt16 d = Ok (v, d') \<Longrightarrow> advances 2 d d'"
  by (auto simp: ReadInt16_def split: result.splits prod.splits if_splits dest!: typed_read_advances)

lemma ReadInt32_advances: "ReadInt32 d = Ok (v, d') \<Longrightarrow> advances 4 d d'"
  by (auto simp: ReadInt32_def split: result.splits prod.splits if_splits dest!: typed_read_advances)

lemma ReadFloat32_advances: "ReadFloat32 d = Ok (v, d') \<Longrightarrow> advances 4 d d'"
  by (auto simp: ReadFloat32_def split: result.splits prod.splits if_splits dest!: typed_read_advances)

lemma ReadFloat64_advances: "ReadFloat64 d = Ok (v, d') \<Longrightarrow> advances 8 d d'"
  by (auto simp: ReadFloat64_def split: result.splits prod.splits if_splits dest!: typed_read_advances)

lemma advances_not_EOF:
  "advances k d d' \<Longrightarrow> 0 < k \<Longrightarrow> \<not> Decoder_EOF d' \<Longrightarrow> length (inp d') < length (inp d)"
  by (auto simp: advances_def Decoder_EOF_def split: if_splits)

lemma Decoder_Read_advances:
  "Decoder_Read n d = Ok ((bs, e), d') \<Longrightarrow> e = None \<Longrightarrow> advances (length bs) d d'"
  by (auto simp: advances_def dest!: Decoder_Read_consumes)

lemma Decoder_Read_advances_fail:
  "Decoder_Read n d = Ok ((bs, e), d') \<Longrightarrow> e \<noteq> None \<Longrightarrow> advances k d (SetError e d')"
  by (auto simp: advances_def SetError_def dest!: Decoder_Read_consumes)

lemma ReadBytes_loop_advances:
  "ReadBytes_loop remaining filled d = Ok ((r', filled'), d') \<Longrightarrow> advances remaining d d'"
proof (induction remaining filled d rule: ReadBytes_loop.induct)
  case (1 remaining filled d)
  note run = 1(2)[unfolded ReadBytes_loop.simps[of remaining filled d]]
  show ?case
  proof (cases "0 < remaining")
    case False
    then show ?thesis using run by (auto simp: advances_refl)
  next
    case True
    obtain bs x d1 where rd: "Decoder_Read remaining d = Ok ((bs, x), d1)"
      using run True by (auto split: result.splits)
    show ?thesis
    proof (cases "x \<noteq> None")
      case True
      then show ?thesis using run \<open>0 < remaining\<close> rd Decoder_Read_advances_fail[OF rd] by auto
    next
      case False
      then have le: "\<not> remaining < length bs"
        and rec: "ReadBytes_loop (remaining - length bs) (filled @ bs) d1 = Ok ((r', filled'), d')"
        using run True rd by (auto split: if_splits)
      have "advances (remaining - length bs) d1 d'"
        using 1(1)[OF True rd refl refl False le rec] .
      moreover have "advances (length bs) d d1" using Decoder_Read_advances[OF rd] False by simp
      ultimately have "advances (length bs + (remaining - length bs)) d d'"
        by (rule advances_trans[rotated])
      then show ?thesis using le by simp
    qed
  qed
qed

lemma ReadBytes_advances: "ReadBytes len d = Ok (bs, d') \<Longrightarrow> advances (nat (sint len)) d d'"
  by (auto simp: ReadBytes_def split: if_splits result.splits prod.splits
           intro: advances_SetError_fail dest!: ReadBytes_loop_advances)

lemma Skip_loop_advances:
  "Skip_loop j remaining d = Ok (r', d') \<Longrightarrow> advances remaining d d'"
proof (induction j remaining d rule: Skip_loop.induct)
  case (1 junkSize remaining d)
  note run = 1(2)[unfolded Skip_loop.simps[of junkSize remaining d]]
  show ?case
  proof (cases "0 < remaining")
    case False
    then show ?thesis using run by (auto simp: advances_refl)
  next
    case True
    let ?n = "if remaining < junkSize then remaining else junkSize"
    obtain bs x d1 where rd: "Decoder_Read ?n d = Ok ((bs, x), d1)"
      using run True by (auto split: result.splits)
    show ?thesis
    proof (cases "x \<noteq> None")
      case True
      then show ?thesis using run \<open>0 < remaining\<close> rd Decoder_Read_advances_fail[OF rd] by auto
    next
      case False
      then have pos: "0 < length bs"
        and rec: "Skip_loop junkSize (remaining - length bs) d1 = Ok (r', d')"
        using run True rd by (auto split: if_splits)
      have "advances (remaining - length bs) d1 d'"
        using 1(1)[OF True rd[symmetric, THEN sym] refl refl _ _ rec] False pos by simp
      moreover have "advances (length bs) d d1" using Decoder_Read_advances[OF rd] False by simp
      ultimately have "advances (length bs + (remaining - length bs)) d d'"
        by (rule advances_trans[rotated])
      then show ?thesis by (rule advances_weaken) simp
    qed
  qed
qed

lemma Skip_advances: "Skip len d = Ok d' \<Longrightarrow> advances (nat (sint len)) d d'"
  by (auto simp: Skip_def Let_def split: if_splits result.splits prod.splits
           intro: advances_SetError_fail dest!: Skip_loop_advances)

lemma internalReadString_advances:
  "internalReadString sd len d = Ok (s, d') \<Longrightarrow> advances (nat (sint len)) d d'"
  by (auto simp: internalReadString_def split: if_splits result.splits prod.splits option.splits
           intro: advances_SetError_after_fail dest!: ReadBytes_advances)

lemma ReadString_advances: "ReadString len d = Ok (s, d') \<Longrightarrow> advances (nat (sint len)) d d'"
  by (auto simp: ReadString_def dest: internalReadString_advances)

section \<open>Element codec: the reader\<close>

definition readTag :: "Decoder \<Rightarrow> (Tag \<times> Decoder) result" where
  "readTag buffer =
     (case ReadUInt16 buffer of
        Panic \<Rightarrow> Panic
      | Ok (grp, d1) \<Rightarrow>
          (case ReadUInt16 d1 of
             Panic \<Rightarrow> Panic
           | Ok (elm, d2) \<Rightarrow> Ok (\<lparr>Group = grp, Element = elm\<rparr>, d2)))"

definition readImplicit :: "tag_dict \<Rightarrow> Tag \<Rightarrow> Decoder \<Rightarrow> ((string \<times> uint32) \<times> Decoder) result" where
  "readImplicit tagDict tag buffer =
     (let vr = (case Find tagDict tag of Some entry \<Rightarrow> ti_VR entry | None \<Rightarrow> ''UN'') in
      case ReadUInt32 buffer of
        Panic \<Rightarrow> Panic
      | Ok (vl, d1) \<Rightarrow>
          if vl \<noteq> UndefinedLength32 \<and> vl mod 2 \<noteq> 0
          then Ok ((vr, 0), SetErrorf ''Encountered odd length when reading implicit VR'' d1)
          else Ok ((vr, vl), d1))"

text \<open>
  \<open>readExplicit\<close>.  The test for the undefined length names the VRs \<open>UC\<close>, \<open>UR\<close> and
  \<open>VI\<close>, as the source does.
\<close>

definition readExplicit :: "Tag \<Rightarrow> Decoder \<Rightarrow> ((string \<times> uint32) \<times> Decoder) result" where
  "readExplicit tag buffer =
     (case ReadString 2 buffer of
        Panic \<Rightarrow> Panic
      | Ok (vr, d1) \<Rightarrow>
          (case (if vr \<in> {''NA'', ''OB'', ''OD'', ''OF'', ''OL'', ''OW'', ''SQ'', ''UN'', ''UC'', ''UR'', ''UT''}
                 then (case Skip 2 d1 of
                         Panic \<Rightarrow> Panic
                       | Ok d2 \<Rightarrow>
                           (case ReadUInt32 d2 of
                              Panic \<Rightarrow> Panic
                            | Ok (vl, d3) \<Rightarrow>
                                if vl = UndefinedLength32 \<and> (vr = ''UC'' \<or> vr = ''UR'' \<or> vr = ''VI'')
                                then Ok (0, SetError (Some (Errorf ''UC, UR and UT may not have an undefined length'')) d3)
                                else Ok (vl, d3)))
                 else (case ReadUInt16 d1 of
                         Panic \<Rightarrow> Panic
                       | Ok (vl16, d2) \<Rightarrow>
                           if (ucast vl16 :: uint32) = 0xffff then Ok (UndefinedLength32, d2)
                           else Ok (ucast vl16, d2))) of
             Panic \<Rightarrow> Panic
           | Ok (vl, d4) \<Rightarrow>
               if vl \<noteq> UndefinedLength32 \<and> vl mod 2 \<noteq> 0
               then Ok ((vr, 0), SetErrorf ''Encountered odd length when reading explicit VR'' d4)
               else Ok ((vr, vl), d4)))"

text \<open>
  The part of \<open>ReadElement\<close> between reading the tag and building the element: the VR
  mode is the one of the transfer syntax, overridden to implicit for group \<open>FFFE\<close>;
  \<open>DoAssert\<close> panics on a mode that is neither implicit nor explicit.
\<close>

definition ReadElement_header :: "tag_dict \<Rightarrow> Tag \<Rightarrow> Decoder \<Rightarrow> ((string \<times> uint32) \<times> Decoder) result" where
  "ReadElement_header tagDict tag d =
     (let impl = (if Group tag = ItemSeqGroup then ImplicitVR else snd (TransferSyntax d)) in
      if impl = ImplicitVR then readImplicit tagDict tag d
      else if \<not> (impl = ExplicitVR) then Panic
      else readExplicit tag d)"

subsection \<open>Encapsulated pixel data\<close>

definition readRawItem :: "tag_dict \<Rightarrow> Decoder \<Rightarrow> ((byte list \<times> bool) \<times> Decoder) result" where
  "readRawItem tagDict d =
     (case readTag d of
        Panic \<Rightarrow> Panic
      | Ok (tag, d1) \<Rightarrow>
          (case readImplicit tagDict tag d1 of
             Panic \<Rightarrow> Panic
           | Ok ((vr, vl), d2) \<Rightarrow>
               if err d2 \<noteq> None then Ok (([], True), d2)
               else if tag = SequenceDelimitationItem
                 then Ok (([], True),
                          if vl \<noteq> 0 then SetErrorf ''SequenceDelimitationItem's VL != 0'' d2 else d2)
               else if tag \<noteq> Item
                 then Ok (([], False), SetErrorf ''Expect Item in pixelData'' d2)
               else if vl = UndefinedLength32
                 then Ok (([], False), SetErrorf ''Expect defined-length item in pixelData'' d2)
               else if vr \<noteq> ''NA''
                 then Ok (([], True), SetErrorf ''Expect NA item'' d2)
               else (case ReadBytes (ucast vl) d2 of
                       Panic \<Rightarrow> Panic
                     | Ok (bs, d3) \<Rightarrow> Ok ((bs, False), d3))))"

lemma readTag_advances: "readTag d = Ok (tag, d') \<Longrightarrow> advances 4 d d'"
proof -
  assume "readTag d = Ok (tag, d')"
  then obtain g d1 el where "ReadUInt16 d = Ok (g, d1)" "ReadUInt16 d1 = Ok (el, d')"
    by (auto simp: readTag_def split: result.splits prod.splits)
  then have "advances (2 + 2) d d'"
    using ReadUInt16_advances advances_trans by blast
  then show ?thesis by simp
qed

lemma readImplicit_advances: "readImplicit tagDict tag d = Ok (r, d') \<Longrightarrow> advances 4 d d'"
  by (auto simp: readImplicit_def Let_def SetErrorf_def split: result.splits prod.splits if_splits
           dest!: ReadUInt32_advances intro: advances_SetError_after)

lemma readRawItem_advances:
  assumes "readRawItem tagDict d = Ok (r, d')"
  shows "advances 8 d d'"
proof -
  obtain tag d1 vr vl d2 where t: "readTag d = Ok (tag, d1)"
      and i: "readImplicit tagDict tag d1 = Ok ((vr, vl), d2)"
    using assms by (auto simp: readRawItem_def split: result.splits prod.splits)
  have a: "advances (4 + 4) d d2"
    using readTag_advances[OF t] readImplicit_advances[OF i] by (rule advances_trans)
  have b: "advances 0 d2 d'"
    using assms t i
    by (auto simp: readRawItem_def SetErrorf_def split: if_splits result.splits prod.splits
             intro: advances_refl advances_SetError advances_weaken[OF ReadBytes_advances])
  have "advances (4 + 4 + 0) d d'" using a b by (rule advances_trans)
  then show ?thesis by simp
qed

text \<open>The loop \<open>for !subdecoder.EOF()\<close> of \<open>readBasicOffsetTable\<close>.\<close>

function readOffsets :: "uint32 list \<Rightarrow> Decoder \<Rightarrow> (uint32 list \<times> Decoder) result" where
  "readOffsets offsets subdecoder =
     (if \<not> Decoder_EOF subdecoder
      then (case ReadUInt32 subdecoder of
              Panic \<Rightarrow> Panic
            | Ok (v, d') \<Rightarrow> readOffsets (offsets @ [v]) d')
      else Ok (offsets, subdecoder))"
  by pat_completeness auto
termination
  by (relation "measure (\<lambda>(offsets, d). if Decoder_EOF d then 0 else Suc (length (inp d)))")
     (auto dest!: ReadUInt32_advances dest: advances_not_EOF)

declare readOffsets.simps [simp del]

definition readBasicOffsetTable :: "tag_dict \<Rightarrow> Decoder \<Rightarrow> (uint32 list \<times> Decoder) result" where
  "readBasicOffsetTable tagDict d =
     (case readRawItem tagDict d of
        Panic \<Rightarrow> Panic
      | Ok ((data, endOfData), d1) \<Rightarrow>
          let d2 = (if endOfData then SetErrorf ''basic offset table not found'' d1 else d1) in
          if length data = 0 then Ok ([0], d2)
          else (case readOffsets [] (NewBytesDecoder data (fst (TransferSyntax d2)) ImplicitVR) of
                  Panic \<Rightarrow> Panic
                | Ok (offsets, subdecoder) \<Rightarrow> Ok (offsets, d2)))"

text \<open>
  The frames of encapsulated pixel data: the loop \<open>for !d.EOF()\<close> over
  \<open>readRawItem\<close> in the \<open>PixelData\<close> branch of \<open>ReadElement\<close>.
\<close>

function readPixelFrames ::
    "tag_dict \<Rightarrow> byte list list \<Rightarrow> Decoder \<Rightarrow> (byte list list \<times> Decoder) result" where
  "readPixelFrames tagDict frames d =
     (if \<not> Decoder_EOF d
      then (case readRawItem tagDict d of
              Panic \<Rightarrow> Panic
            | Ok ((chunk, endOfItems), d') \<Rightarrow>
                if err d' \<noteq> None then Ok (frames, d')
                else if endOfItems then Ok (frames, d')
                else readPixelFrames tagDict (frames @ [chunk]) d')
      else Ok (frames, d))"
  by pat_completeness auto
termination
  by (relation "measure (\<lambda>(tagDict, frames, d). length (inp d))")
     (auto dest!: readRawItem_advances simp: advances_def)

declare readPixelFrames.simps [simp del]

text \<open>The \<open>PixelData\<close> branch of \<open>ReadElement\<close>; it yields the slice \<open>data\<close>.\<close>

definition ReadElement_pixelData ::
    "tag_dict \<Rightarrow> uint32 \<Rightarrow> Decoder \<Rightarrow> (Value list \<times> Decoder) result" where
  "ReadElement_pixelData tagDict vl d =
     (if vl = UndefinedLength32
      then (case readBasicOffsetTable tagDict d of
              Panic \<Rightarrow> Panic
            | Ok (offsets, d1) \<Rightarrow>
                (case readPixelFrames tagDict [] d1 of
                   Panic \<Rightarrow> Panic
                 | Ok (frames, d2) \<Rightarrow>
                     Ok ([VPixelData \<lparr>Offsets = offsets, Frames = frames\<rparr>], d2)))
      else (case ReadBytes (ucast vl) d of
              Panic \<Rightarrow> Panic
            | Ok (bs, d1) \<Rightarrow> Ok ([VPixelData \<lparr>Offsets = [], Frames = [bs]\<rparr>], d1)))"

subsection \<open>Scalar and string values\<close>

text \<open>
  \<open>strings.Trim(s, cutset)\<close> removes the characters of the cutset at both ends;
  \<open>strings.Split(s, sep)\<close> is needed for the separator of one character only.
\<close>

definition strings_Trim :: "string \<Rightarrow> string \<Rightarrow> string" where
  "strings_Trim s cutset =
     rev (dropWhile (\<lambda>c. c \<in> set cutset) (rev (dropWhile (\<lambda>c. c \<in> set cutset) s)))"

fun strings_Split :: "string \<Rightarrow> char \<Rightarrow> string list" where
  "strings_Split [] sep = [[]]"
| "strings_Split (c # s) sep =
     (if c = sep then [] # strings_Split s sep
      else (c # hd (strings_Split s sep)) # tl (strings_Split s sep))"

text \<open>The loops \<open>for !d.EOF()\<close> of the scalar branch, one for each VR.\<close>

function AT_loop :: "Value list \<Rightarrow> Decoder \<Rightarrow> (Value list \<times> Decoder) result" where
  "AT_loop data d =
     (if \<not> Decoder_EOF d
      then (case ReadUInt16 d of
              Panic \<Rightarrow> Panic
            | Ok (g, d1) \<Rightarrow>
                (case ReadUInt16 d1 of
                   Panic \<Rightarrow> Panic
                 | Ok (el, d2) \<Rightarrow> AT_loop (data @ [VTag \<lparr>Group = g, Element = el\<rparr>]) d2))
      else Ok (data, d))"
  by pat_completeness auto
termination
proof (relation "measure (\<lambda>(data, d). if Decoder_EOF d then 0 else Suc (length (inp d)))")
  show "wf (measure (\<lambda>(data, d). if Decoder_EOF d then 0 else Suc (length (inp d))))" by simp
next
  fix data :: "Value list" and d x2 g d1 x2a el d2
  assume "\<not> Decoder_EOF d" "ReadUInt16 d = Ok x2" "(g, d1) = x2" "ReadUInt16 d1 = Ok x2a"
    "(el, d2) = x2a"
  then have a1: "advances 2 d d1" and a2: "advances 2 d1 d2"
    using ReadUInt16_advances[of d g d1] ReadUInt16_advances[of d1 el d2] by auto
  have "advances 4 d d2" using advances_trans[OF a1 a2] by simp
  then show "((data @ [VTag \<lparr>Group = g, Element = el\<rparr>], d2), (data, d))
      \<in> measure (\<lambda>(data, d). if Decoder_EOF d then 0 else Suc (length (inp d)))"
    using \<open>\<not> Decoder_EOF d\<close> advances_not_EOF[of 4 d d2] by auto
qed

declare AT_loop.simps [simp del]

function UL_loop :: "Value list \<Rightarrow> Decoder \<Rightarrow> (Value list \<times> Decoder) result" where
  "UL_loop data d =
     (if \<not> Decoder_EOF d
      then (case ReadUInt32 d of Panic \<Rightarrow> Panic | Ok (v, d') \<Rightarrow> UL_loop (data @ [VUInt32 v]) d')
      else Ok (data, d))"
  by pat_completeness auto
termination
  by (relation "measure (\<lambda>(data, d). if Decoder_EOF d then 0 else Suc (length (inp d)))")
     (auto dest!: ReadUInt32_advances dest: advances_not_EOF)

declare UL_loop.simps [simp del]

function SL_loop :: "Value list \<Rightarrow> Decoder \<Rightarrow> (Value list \<times> Decoder) result" where
  "SL_loop data d =
     (if \<not> Decoder_EOF d
      then (case ReadInt32 d of Panic \<Rightarrow> Panic | Ok (v, d') \<Rightarrow> SL_loop (data @ [VInt32 v]) d')
      else Ok (data, d))"
  by pat_completeness auto
termination
  by (relation "measure (\<lambda>(data, d). if Decoder_EOF d then 0 else Suc (length (inp d)))")
     (auto dest!: ReadInt32_advances dest: advances_not_EOF)

declare SL_loop.simps [simp del]

function US_loop :: "Value list \<Rightarrow> Decoder \<Rightarrow> (Value list \<times> Decoder) result" where
  "US_loop data d =
     (if \<not> Decoder_EOF d
      then (case ReadUInt16 d of Panic \<Rightarrow> Panic | Ok (v, d') \<Rightarrow> US_loop (data @ [VUInt16 v]) d')
      else Ok (data, d))"
  by pat_completeness auto
termination
  by (relation "measure (\<lambda>(data, d). if Decoder_EOF d then 0 else Suc (length (inp d)))")
     (auto dest!: ReadUInt16_advances dest: advances_not_EOF)

declare US_loop.simps [simp del]

function SS_loop :: "Value list \<Rightarrow> Decoder \<Rightarrow> (Value list \<times> Decoder) result" where
  "SS_loop data d =
     (if \<not> Decoder_EOF d
      then (case ReadInt16 d of Panic \<Rightarrow> Panic | Ok (v, d') \<Rightarrow> SS_loop (data @ [VInt16 v]) d')
      else Ok (data, d))"
  by pat_completeness auto
termination
  by (relation "measure (\<lambda>(data, d). if Decoder_EOF d then 0 else Suc (length (inp d)))")
     (auto dest!: ReadInt16_advances dest: advances_not_EOF)

declare SS_loop.simps [simp del]

function FL_loop :: "Value list \<Rightarrow> Decoder \<Rightarrow> (Value list \<times> Decoder) result" where
  "FL_loop data d =
     (if \<not> Decoder_EOF d
      then (case ReadFloat32 d of Panic \<Rightarrow> Panic | Ok (v, d') \<Rightarrow> FL_loop (data @ [VFloat32 v]) d')
      else Ok (data, d))"
  by pat_completeness auto
termination
  by (relation "measure (\<lambda>(data, d). if Decoder_EOF d then 0 else Suc (length (inp d)))")
     (auto dest!: ReadFloat32_advances dest: advances_not_EOF)

declare FL_loop.simps [simp del]

function FD_loop :: "Value list \<Rightarrow> Decoder \<Rightarrow> (Value list \<times> Decoder) result" where
  "FD_loop data d =
     (if \<not> Decoder_EOF d
      then (case ReadFloat64 d of Panic \<Rightarrow> Panic | Ok (v, d') \<Rightarrow> FD_loop (data @ [VFloat64 v]) d')
      else Ok (data, d))"
  by pat_completeness auto
termination
  by (relation "measure (\<lambda>(data, d). if Decoder_EOF d then 0 else Suc (length (inp d)))")
     (auto dest!: ReadFloat64_advances dest: advances_not_EOF)

declare FD_loop.simps [simp del]

text \<open>
  The loop \<open>for i := 0; i < n; i++\<close> of the \<open>OW\<close> branch, which copies \<open>n\<close> 16-bit
  values from the decoder to an encoder in the native byte order.
\<close>

fun OW_loop :: "nat \<Rightarrow> Encoder \<Rightarrow> Decoder \<Rightarrow> (Encoder \<times> Decoder) result" where
  "OW_loop 0 e d = Ok (e, d)"
| "OW_loop (Suc n) e d =
     (case ReadUInt16 d of
        Panic \<Rightarrow> Panic
      | Ok (v, d') \<Rightarrow>
          (case WriteUInt16 v e of
             Panic \<Rightarrow> Panic
           | Ok e' \<Rightarrow> OW_loop n e' d'))"

text \<open>
  The values of the scalar branch of \<open>ReadElement\<close>, read inside the limit window of
  \<open>vl\<close> bytes.
\<close>

definition ReadElement_values ::
    "Tag \<Rightarrow> string \<Rightarrow> uint32 \<Rightarrow> Decoder \<Rightarrow> (Value list \<times> Decoder) result" where
  "ReadElement_values tag vr vl d =
     (if vr = ''DA''
        then (case ReadString (ucast vl) d of
                Panic \<Rightarrow> Panic
              | Ok (s, d') \<Rightarrow> Ok ([VString (strings_Trim s [CHR '' '', CHR 0x00])], d'))
      else if vr = ''AT'' then AT_loop [] d
      else if vr = ''OW''
        then (if vl mod 2 \<noteq> 0
              then Ok ([], SetErrorf ''dicom.ReadElement: OW requires even length'' d)
              else (case OW_loop (unat (vl div 2)) (NewBytesEncoder NativeByteOrder UnknownVR) d of
                      Panic \<Rightarrow> Panic
                    | Ok (e, d') \<Rightarrow>
                        if \<not> (Encoder_Error e = None) then Panic
                        else (case Bytes e of
                                Panic \<Rightarrow> Panic
                              | Ok bs \<Rightarrow> Ok ([VBytes bs], d'))))
      else if vr = ''OB''
        then (case ReadBytes (ucast vl) d of
                Panic \<Rightarrow> Panic
              | Ok (bs, d') \<Rightarrow> Ok ([VBytes bs], d'))
      else if vr = ''LT'' \<or> vr = ''UT''
        then (case ReadString (ucast vl) d of
                Panic \<Rightarrow> Panic
              | Ok (s, d') \<Rightarrow> Ok ([VString s], d'))
      else if vr = ''UL'' then UL_loop [] d
      else if vr = ''SL'' then SL_loop [] d
      else if vr = ''US'' then US_loop [] d
      else if vr = ''SS'' then SS_loop [] d
      else if vr = ''FL'' \<or> vr = ''OF'' then FL_loop [] d
      else if vr = ''FD'' \<or> vr = ''OD'' then FD_loop [] d
      else (case ReadString (ucast vl) d of
              Panic \<Rightarrow> Panic
            | Ok (v, d') \<Rightarrow>
                let str = strings_Trim v [CHR '' '', CHR 0x00] in
                if 0 < length str then Ok (map VString (strings_Split str (CHR 0x5C)), d')
                else Ok ([], d')))"

text \<open>
  The scalar branch of \<open>ReadElement\<close>: \<open>None\<close> is its \<open>return nil\<close> for an undefined
  length; otherwise the limit window is opened, the values are read, and the deferred
  \<open>PopLimit\<close> closes it when the function returns.
\<close>

definition ReadElement_scalar ::
    "Tag \<Rightarrow> string \<Rightarrow> uint32 \<Rightarrow> Decoder \<Rightarrow> (Value list option \<times> Decoder) result" where
  "ReadElement_scalar tag vr vl d =
     (if vl = UndefinedLength32
      then Ok (None, SetErrorf ''dicom.ReadElement: Undefined length disallowed'' d)
      else (case ReadElement_values tag vr vl (PushLimit (ucast vl) d) of
              Panic \<Rightarrow> Panic
            | Ok (data, d1) \<Rightarrow>
                (case PopLimit d1 of
                   Panic \<Rightarrow> Panic
                 | Ok d2 \<Rightarrow> Ok (Some data, d2))))"

subsection \<open>ReadElement\<close>

text \<open>
  Dereferencing the pointer that \<open>ReadElement\<close> returned (as in \<open>item.Tag\<close>): the nil
  pointer has no element behind it.
\<close>

definition deref :: "ReadResult \<Rightarrow> Element option" where
  "deref r = (case r of NilElement \<Rightarrow> None | EndOfDataElement \<Rightarrow> Some endOfDataElement | Elem e \<Rightarrow> Some e)"

text \<open>
  \<open>ReadElement\<close> calls itself for the items of a sequence and the elements of an item,
  inside four loops: in source order, the items of a sequence of undefined length (up to
  the sequence delimiter), the items of a sequence of defined length (inside a limit
  window), the elements of an item of undefined length (up to the item delimiter), and
  the elements of an item of defined length.

  Each of the five bodies is written once, with the functions it calls as its first
  arguments: the body of \<open>ReadElement\<close> (in two parts, the values apart) takes the four
  loops (each started with the empty slice \<open>data\<close>), the body of a loop takes
  \<open>ReadElement\<close> (called with \<open>ReadOptions{}\<close>) and the loop itself for its next
  iteration.  The recursion that ties them together
  follows and is bounded by a fuel argument that every call and every loop iteration
  decrements; \<open>None\<close> means that the fuel ran out before the function returned.
\<close>

text \<open>
  The values of the element, read by the branch that the tag and the VR select: the
  statements of \<open>ReadElement\<close> that fill the slice \<open>data\<close>.  \<open>None\<close> in place of the
  values is the \<open>return nil\<close> of the scalar branch.
\<close>

definition ReadElement_data ::
    "(Decoder \<Rightarrow> (Value list \<times> Decoder) result option)
     \<Rightarrow> (Decoder \<Rightarrow> (Value list \<times> Decoder) result option)
     \<Rightarrow> (Decoder \<Rightarrow> (Value list \<times> Decoder) result option)
     \<Rightarrow> (Decoder \<Rightarrow> (Value list \<times> Decoder) result option)
     \<Rightarrow> tag_dict \<Rightarrow> Tag \<Rightarrow> string \<Rightarrow> uint32 \<Rightarrow> Decoder
     \<Rightarrow> (Value list option \<times> Decoder) result option" where
  "ReadElement_data SQ_undefined SQ_defined Item_undefined Item_defined tagDict tag vr vl d =
     (if tag = PixelData
      then (case ReadElement_pixelData tagDict vl d of
              Panic \<Rightarrow> Some Panic
            | Ok (data, d1) \<Rightarrow> Some (Ok (Some data, d1)))
      else if vr = ''SQ''
      then (if vl = UndefinedLength32
            then (case SQ_undefined d of
                    None \<Rightarrow> None
                  | Some Panic \<Rightarrow> Some Panic
                  | Some (Ok (data, d1)) \<Rightarrow> Some (Ok (Some data, d1)))
            else (case SQ_defined (PushLimit (ucast vl) d) of
                    None \<Rightarrow> None
                  | Some Panic \<Rightarrow> Some Panic
                  | Some (Ok (data, d1)) \<Rightarrow>
                      (case PopLimit d1 of
                         Panic \<Rightarrow> Some Panic
                       | Ok d2 \<Rightarrow> Some (Ok (Some data, d2)))))
      else if tag = Item
      then (if vl = UndefinedLength32
            then (case Item_undefined d of
                    None \<Rightarrow> None
                  | Some Panic \<Rightarrow> Some Panic
                  | Some (Ok (data, d1)) \<Rightarrow> Some (Ok (Some data, d1)))
            else (case Item_defined (PushLimit (ucast vl) d) of
                    None \<Rightarrow> None
                  | Some Panic \<Rightarrow> Some Panic
                  | Some (Ok (data, d1)) \<Rightarrow>
                      (case PopLimit d1 of
                         Panic \<Rightarrow> Some Panic
                       | Ok d2 \<Rightarrow> Some (Ok (Some data, d2)))))
      else Some (ReadElement_scalar tag vr vl d))"

text \<open>
  The body of \<open>ReadElement\<close>: the tag, the two early returns of the end-of-data
  element, the header, the element with the VR of the header (\<open>SQ\<close> in place of \<open>UN\<close>
  with an undefined length), and its values.
\<close>

definition ReadElement_body ::
    "(Decoder \<Rightarrow> (Value list \<times> Decoder) result option)
     \<Rightarrow> (Decoder \<Rightarrow> (Value list \<times> Decoder) result option)
     \<Rightarrow> (Decoder \<Rightarrow> (Value list \<times> Decoder) result option)
     \<Rightarrow> (Decoder \<Rightarrow> (Value list \<times> Decoder) result option)
     \<Rightarrow> tag_dict \<Rightarrow> ReadOptions \<Rightarrow> Decoder \<Rightarrow> (ReadResult \<times> Decoder) result option" where
  "ReadElement_body SQ_undefined SQ_defined Item_undefined Item_defined tagDict options d =
     (case readTag d of
        Panic \<Rightarrow> Some Panic
      | Ok (tag, d1) \<Rightarrow>
          if tag = PixelData \<and> DropPixelData options then Some (Ok (EndOfDataElement, d1))
          else if (case StopAtTag options of
                     None \<Rightarrow> False
                   | Some stop \<Rightarrow> Group tag \<ge> Group stop \<and> Element tag \<ge> Element stop)
            then Some (Ok (EndOfDataElement, d1))
          else (case ReadElement_header tagDict tag d1 of
                  Panic \<Rightarrow> Some Panic
                | Ok ((vr0, vl), d2) \<Rightarrow>
                    let undefLen = (vl = UndefinedLength32);
                        vr = (if vr0 = ''UN'' \<and> vl = UndefinedLength32 then ''SQ'' else vr0)
                    in
                    (case ReadElement_data SQ_undefined SQ_defined Item_undefined Item_defined
                            tagDict tag vr vl d2 of
                       None \<Rightarrow> None
                     | Some Panic \<Rightarrow> Some Panic
                     | Some (Ok (None, d3)) \<Rightarrow> Some (Ok (NilElement, d3))
                     | Some (Ok (Some data, d3)) \<Rightarrow>
                         Some (Ok (Elem (MkElement tag data vr undefLen), d3)))))"

definition SQ_undefined_body ::
    "(Decoder \<Rightarrow> (ReadResult \<times> Decoder) result option)
     \<Rightarrow> (Value list \<Rightarrow> Decoder \<Rightarrow> (Value list \<times> Decoder) result option)
     \<Rightarrow> Value list \<Rightarrow> Decoder \<Rightarrow> (Value list \<times> Decoder) result option" where
  "SQ_undefined_body ReadElem next_iteration data d =
     (case ReadElem d of
        None \<Rightarrow> None
      | Some Panic \<Rightarrow> Some Panic
      | Some (Ok (item, d')) \<Rightarrow>
          if err d' \<noteq> None then Some (Ok (data, d'))
          else (case deref item of
                  None \<Rightarrow> Some Panic
                | Some it \<Rightarrow>
                    if Tag it = SequenceDelimitationItem then Some (Ok (data, d'))
                    else if Tag it \<noteq> Item
                      then Some (Ok (data, SetErrorf ''dicom.ReadElement: Found non-Item element in seq'' d'))
                    else next_iteration (data @ [VElement it]) d'))"

definition SQ_defined_body ::
    "(Decoder \<Rightarrow> (ReadResult \<times> Decoder) result option)
     \<Rightarrow> (Value list \<Rightarrow> Decoder \<Rightarrow> (Value list \<times> Decoder) result option)
     \<Rightarrow> Value list \<Rightarrow> Decoder \<Rightarrow> (Value list \<times> Decoder) result option" where
  "SQ_defined_body ReadElem next_iteration data d =
     (if \<not> Decoder_EOF d
      then (case ReadElem d of
              None \<Rightarrow> None
            | Some Panic \<Rightarrow> Some Panic
            | Some (Ok (item, d')) \<Rightarrow>
                if err d' \<noteq> None then Some (Ok (data, d'))
                else (case deref item of
                        None \<Rightarrow> Some Panic
                      | Some it \<Rightarrow>
                          if Tag it \<noteq> Item
                          then Some (Ok (data, SetErrorf ''dicom.ReadElement: Found non-Item element in seq'' d'))
                          else next_iteration (data @ [VElement it]) d'))
      else Some (Ok (data, d)))"

definition Item_undefined_body ::
    "(Decoder \<Rightarrow> (ReadResult \<times> Decoder) result option)
     \<Rightarrow> (Value list \<Rightarrow> Decoder \<Rightarrow> (Value list \<times> Decoder) result option)
     \<Rightarrow> Value list \<Rightarrow> Decoder \<Rightarrow> (Value list \<times> Decoder) result option" where
  "Item_undefined_body ReadElem next_iteration data d =
     (case ReadElem d of
        None \<Rightarrow> None
      | Some Panic \<Rightarrow> Some Panic
      | Some (Ok (subelem, d')) \<Rightarrow>
          if err d' \<noteq> None then Some (Ok (data, d'))
          else (case deref subelem of
                  None \<Rightarrow> Some Panic
                | Some sub \<Rightarrow>
                    if Tag sub = ItemDelimitationItem then Some (Ok (data, d'))
                    else next_iteration (data @ [VElement sub]) d'))"

definition Item_defined_body ::
    "(Decoder \<Rightarrow> (ReadResult \<times> Decoder) result option)
     \<Rightarrow> (Value list \<Rightarrow> Decoder \<Rightarrow> (Value list \<times> Decoder) result option)
     \<Rightarrow> Value list \<Rightarrow> Decoder \<Rightarrow> (Value list \<times> Decoder) result option" where
  "Item_defined_body ReadElem next_iteration data d =
     (if \<not> Decoder_EOF d
      then (case ReadElem d of
              None \<Rightarrow> None
            | Some Panic \<Rightarrow> Some Panic
            | Some (Ok (subelem, d')) \<Rightarrow>
                if err d' \<noteq> None then Some (Ok (data, d'))
                else (case deref subelem of
                        None \<Rightarrow> Some Panic
                      | Some sub \<Rightarrow> next_iteration (data @ [VElement sub]) d'))
      else Some (Ok (data, d)))"

fun ReadElement ::
    "nat \<Rightarrow> tag_dict \<Rightarrow> ReadOptions \<Rightarrow> Decoder \<Rightarrow> (ReadResult \<times> Decoder) result option"
and SQ_undefined_loop ::
    "nat \<Rightarrow> tag_dict \<Rightarrow> Value list \<Rightarrow> Decoder \<Rightarrow> (Value list \<times> Decoder) result option"
and SQ_defined_loop ::
    "nat \<Rightarrow> tag_dict \<Rightarrow> Value list \<Rightarrow> Decoder \<Rightarrow> (Value list \<times> Decoder) result option"
and Item_undefined_loop ::
    "nat \<Rightarrow> tag_dict \<Rightarrow> Value list \<Rightarrow> Decoder \<Rightarrow> (Value list \<times> Decoder) result option"
and Item_defined_loop ::
    "nat \<Rightarrow> tag_dict \<Rightarrow> Value list \<Rightarrow> Decoder \<Rightarrow> (Value list \<times> Decoder) result option"
where
  "ReadElement 0 tagDict options d = None"
| "ReadElement (Suc fuel) tagDict options d =
     ReadElement_body
       (SQ_undefined_loop fuel tagDict []) (SQ_defined_loop fuel tagDict [])
       (Item_undefined_loop fuel tagDict []) (Item_defined_loop fuel tagDict [])
       tagDict options d"
| "SQ_undefined_loop 0 tagDict data d = None"
| "SQ_undefined_loop (Suc fuel) tagDict data d =
     SQ_undefined_body (ReadElement fuel tagDict noReadOptions) (SQ_undefined_loop fuel tagDict) data d"
| "SQ_defined_loop 0 tagDict data d = None"
| "SQ_defined_loop (Suc fuel) tagDict data d =
     SQ_defined_body (ReadElement fuel tagDict noReadOptions) (SQ_defined_loop fuel tagDict) data d"
| "Item_undefined_loop 0 tagDict data d = None"
| "Item_undefined_loop (Suc fuel) tagDict data d =
     Item_undefined_body (ReadElement fuel tagDict noReadOptions) (Item_undefined_loop fuel tagDict) data d"
| "Item_defined_loop 0 tagDict data d = None"
| "Item_defined_loop (Suc fuel) tagDict data d =
     Item_defined_body (ReadElement fuel tagDict noReadOptions) (Item_defined_loop fuel tagDict) data d"

subsection \<open>The body loop of ReadDataSet\<close>

definition GetStrings :: "Element \<Rightarrow> error + string list" where
  "GetStrings e =
     (if list_all (\<lambda>v. case v of VString s \<Rightarrow> True | _ \<Rightarrow> False) (Value e)
      then Inr (concat (map (\<lambda>v. case v of VString s \<Rightarrow> [s] | _ \<Rightarrow> []) (Value e)))
      else Inl (Errorf ''string value not found''))"

fun tagInList :: "Tag \<Rightarrow> Tag list \<Rightarrow> bool" where
  "tagInList tag [] = False"
| "tagInList tag (t # tags) = (if tag = t then True else tagInList tag tags)"

text \<open>
  What the loop does on meeting a \<open>SpecificCharacterSet\<close> element: the names are
  resolved and the coding system installed, or the error is recorded.
\<close>

definition ReadDataSet_charset :: "htmlindex \<Rightarrow> Element \<Rightarrow> Decoder \<Rightarrow> Decoder result" where
  "ReadDataSet_charset htmlindex_Get elem buffer =
     (case GetStrings elem of
        Inl e \<Rightarrow> Ok (SetError (Some e) buffer)
      | Inr encodingNames \<Rightarrow>
          (case ParseSpecificCharacterSet htmlindex_Get encodingNames of
             Panic \<Rightarrow> Panic
           | Ok (cs, Some e) \<Rightarrow> Ok (SetError (Some e) buffer)
           | Ok (cs, None) \<Rightarrow> Ok (SetCodingSystem cs buffer)))"

text \<open>
  The loop \<open>for !buffer.EOF()\<close> of \<open>ReadDataSet\<close>, from the elements of the meta header
  and the decoder with the transfer syntax of the body pushed, to the elements of the
  data set and the decoder at the end.  It panics when an element read did not advance
  the position.  The body is written with \<open>ReadElement\<close> and the next iteration as
  arguments, and the loop is bounded by fuel, as for \<open>ReadElement\<close>.
\<close>

definition ReadDataSet_body ::
    "(Decoder \<Rightarrow> (ReadResult \<times> Decoder) result option)
     \<Rightarrow> (Element list \<Rightarrow> Decoder \<Rightarrow> (Element list \<times> Decoder) result option)
     \<Rightarrow> htmlindex \<Rightarrow> ReadOptions \<Rightarrow> Element list \<Rightarrow> Decoder
     \<Rightarrow> (Element list \<times> Decoder) result option" where
  "ReadDataSet_body ReadElem next_iteration htmlindex_Get options elements buffer =
     (if \<not> Decoder_EOF buffer
      then (let startLen = BytesRead buffer in
            case ReadElem buffer of
              None \<Rightarrow> None
            | Some Panic \<Rightarrow> Some Panic
            | Some (Ok (elem, b1)) \<Rightarrow>
                if sint (BytesRead b1) \<le> sint startLen then Some Panic
                else (case elem of
                        EndOfDataElement \<Rightarrow> Some (Ok (elements, b1))
                      | NilElement \<Rightarrow> next_iteration elements b1
                      | Elem e \<Rightarrow>
                          (case (if Tag e = SpecificCharacterSet
                                 then ReadDataSet_charset htmlindex_Get e b1 else Ok b1) of
                             Panic \<Rightarrow> Some Panic
                           | Ok b2 \<Rightarrow>
                               if (case ReturnTags options of
                                     None \<Rightarrow> True
                                   | Some tags \<Rightarrow> tagInList (Tag e) tags)
                               then next_iteration (elements @ [e]) b2
                               else next_iteration elements b2)))
      else Some (Ok (elements, buffer)))"

fun ReadDataSet_loop ::
    "nat \<Rightarrow> tag_dict \<Rightarrow> htmlindex \<Rightarrow> ReadOptions \<Rightarrow> Element list \<Rightarrow> Decoder
       \<Rightarrow> (Element list \<times> Decoder) result option" where
  "ReadDataSet_loop 0 tagDict htmlindex_Get options elements buffer = None"
| "ReadDataSet_loop (Suc fuel) tagDict htmlindex_Get options elements buffer =
     ReadDataSet_body (ReadElement fuel tagDict options)
       (ReadDataSet_loop fuel tagDict htmlindex_Get options)
       htmlindex_Get options elements buffer"

section \<open>Element codec: the writer\<close>

text \<open>
  \<open>uint32(len(x))\<close> keeps the low 32 bits of the length; \<open>uint16(vl)\<close> the low 16
  bits of the value length.
\<close>

definition encodeElementHeader :: "Tag \<Rightarrow> string \<Rightarrow> uint32 \<Rightarrow> Encoder \<Rightarrow> Encoder result" where
  "encodeElementHeader tag vr vl e =
     (if \<not> (vl = UndefinedLength32 \<or> vl mod 2 = 0) then Panic
      else (case WriteUInt16 (Group tag) e of
              Panic \<Rightarrow> Panic
            | Ok e1 \<Rightarrow>
                (case WriteUInt16 (Element tag) e1 of
                   Panic \<Rightarrow> Panic
                 | Ok e2 \<Rightarrow>
                     let impl = (if Group tag = ItemSeqGroup then ImplicitVR
                                 else snd (Encoder_TransferSyntax e2)) in
                     if impl = ExplicitVR
                     then (if \<not> (length vr = 2) then Panic
                           else let e3 = WriteString vr e2 in
                                if vr \<in> {''NA'', ''OB'', ''OD'', ''OF'', ''OL'', ''OW'', ''SQ'', ''UN'',
                                          ''UC'', ''UR'', ''UT''}
                                then WriteUInt32 vl (WriteZeros 2 e3)
                                else WriteUInt16 (ucast vl) e3)
                     else if \<not> (impl = ImplicitVR) then Panic
                     else WriteUInt32 vl e2)))"

definition writeRawItem :: "byte list \<Rightarrow> Encoder \<Rightarrow> Encoder result" where
  "writeRawItem data e =
     (case encodeElementHeader Item ''NA'' (of_nat (length data)) e of
        Panic \<Rightarrow> Panic
      | Ok e1 \<Rightarrow> Ok (WriteBytes data e1))"

text \<open>A loop \<open>for _, x := range xs\<close> whose body may panic, over the state it updates.\<close>

fun forRange :: "('a \<Rightarrow> 's \<Rightarrow> 's result) \<Rightarrow> 'a list \<Rightarrow> 's \<Rightarrow> 's result" where
  "forRange body [] s = Ok s"
| "forRange body (x # xs) s =
     (case body x s of Panic \<Rightarrow> Panic | Ok s' \<Rightarrow> forRange body xs s')"

definition writeBasicOffsetTable :: "uint32 list \<Rightarrow> Encoder \<Rightarrow> Encoder result" where
  "writeBasicOffsetTable offsets e =
     (case forRange (\<lambda>offset subEncoder. WriteUInt32 offset subEncoder) offsets
             (NewBytesEncoder (fst (Encoder_TransferSyntax e)) ImplicitVR) of
        Panic \<Rightarrow> Panic
      | Ok subEncoder \<Rightarrow>
          (case Bytes subEncoder of
             Panic \<Rightarrow> Panic
           | Ok bs \<Rightarrow> writeRawItem bs e))"

text \<open>
  The \<open>PixelData\<close> branch of \<open>WriteElement\<close>.  \<open>elem.Value[0]\<close> panics on an empty
  slice; a failed type assertion leaves \<open>image\<close> the zero \<open>PixelDataInfo\<close>.
\<close>

definition WriteElement_pixelData ::
    "Tag \<Rightarrow> Value list \<Rightarrow> string \<Rightarrow> bool \<Rightarrow> Encoder \<Rightarrow> Encoder result" where
  "WriteElement_pixelData tag values vr undefLen e =
     (let e1 = (if length values \<noteq> 1
                then Encoder_SetError (Some (Errorf ''PixelData element must have one value of type PixelDataInfo'')) e
                else e) in
      case values of
        [] \<Rightarrow> Panic
      | v0 # rest \<Rightarrow>
          let ok = (case v0 of VPixelData i \<Rightarrow> True | _ \<Rightarrow> False);
              image = (case v0 of VPixelData i \<Rightarrow> i | _ \<Rightarrow> \<lparr>Offsets = [], Frames = []\<rparr>);
              e2 = (if \<not> ok
                    then Encoder_SetError (Some (Errorf ''PixelData value must be a PixelDataInfo'')) e1
                    else e1)
          in
          if undefLen
          then (case encodeElementHeader tag vr UndefinedLength32 e2 of
                  Panic \<Rightarrow> Panic
                | Ok e3 \<Rightarrow>
                    (case writeBasicOffsetTable (Offsets image) e3 of
                       Panic \<Rightarrow> Panic
                     | Ok e4 \<Rightarrow>
                         (case forRange (\<lambda>frame enc. writeRawItem frame enc) (Frames image) e4 of
                            Panic \<Rightarrow> Panic
                          | Ok e5 \<Rightarrow> encodeElementHeader SequenceDelimitationItem '''' 0 e5)))
          else if \<not> (length (Frames image) = 1) then Panic
          else (case encodeElementHeader tag vr (of_nat (length (Frames image ! 0))) e2 of
                  Panic \<Rightarrow> Panic
                | Ok e3 \<Rightarrow> Ok (WriteBytes (Frames image ! 0) e3)))"

text \<open>
  The scalar branch of \<open>WriteElement\<close> fills the sub-encoder \<open>sube\<close> and records type
  errors on \<open>e\<close>; the state of its loops is the pair \<open>(e, sube)\<close>.  The two string loops
  also carry the string built so far and the index \<open>i\<close>.
\<close>

definition joinStrings :: "Tag \<Rightarrow> Value list \<Rightarrow> Encoder \<Rightarrow> (Encoder \<times> string) result" where
  "joinStrings tag values e =
     (case forRange
             (\<lambda>value (e', s, i).
                case value of
                  VString substr \<Rightarrow> Ok (e', (if 0 < i then s @ [CHR 0x5C] else s) @ substr, Suc i)
                | _ \<Rightarrow> Ok (Encoder_SetErrorf ''value is not a string'' e', s, Suc i))
             values (e, [], 0 :: nat) of
        Panic \<Rightarrow> Panic
      | Ok (e', s, i) \<Rightarrow> Ok (e', s))"

definition WriteElement_values ::
    "Tag \<Rightarrow> Value list \<Rightarrow> string \<Rightarrow> Encoder \<times> Encoder \<Rightarrow> (Encoder \<times> Encoder) result" where
  "WriteElement_values tag values vr es =
     (if vr = ''US''
        then forRange (\<lambda>value (e, sube).
               case value of
                 VUInt16 v \<Rightarrow> (case WriteUInt16 v sube of Panic \<Rightarrow> Panic | Ok s' \<Rightarrow> Ok (e, s'))
               | _ \<Rightarrow> Ok (Encoder_SetErrorf ''value is not a uint16'' e, sube)) values es
      else if vr = ''UL''
        then forRange (\<lambda>value (e, sube).
               case value of
                 VUInt32 v \<Rightarrow> (case WriteUInt32 v sube of Panic \<Rightarrow> Panic | Ok s' \<Rightarrow> Ok (e, s'))
               | _ \<Rightarrow> Ok (Encoder_SetErrorf ''value is not a uint32'' e, sube)) values es
      else if vr = ''SL''
        then forRange (\<lambda>value (e, sube).
               case value of
                 VInt32 v \<Rightarrow> (case WriteInt32 v sube of Panic \<Rightarrow> Panic | Ok s' \<Rightarrow> Ok (e, s'))
               | _ \<Rightarrow> Ok (Encoder_SetErrorf ''value is not an int32'' e, sube)) values es
      else if vr = ''SS''
        then forRange (\<lambda>value (e, sube).
               case value of
                 VInt16 v \<Rightarrow> (case WriteInt16 v sube of Panic \<Rightarrow> Panic | Ok s' \<Rightarrow> Ok (e, s'))
               | _ \<Rightarrow> Ok (Encoder_SetErrorf ''value is not an int16'' e, sube)) values es
      else if vr = ''FL'' \<or> vr = ''OF''
        then forRange (\<lambda>value (e, sube).
               case value of
                 VFloat32 v \<Rightarrow> (case WriteFloat32 v sube of Panic \<Rightarrow> Panic | Ok s' \<Rightarrow> Ok (e, s'))
               | _ \<Rightarrow> Ok (Encoder_SetErrorf ''value is not a float32'' e, sube)) values es
      else if vr = ''FD'' \<or> vr = ''OD''
        then forRange (\<lambda>value (e, sube).
               case value of
                 VFloat64 v \<Rightarrow> (case WriteFloat64 v sube of Panic \<Rightarrow> Panic | Ok s' \<Rightarrow> Ok (e, s'))
               | _ \<Rightarrow> Ok (Encoder_SetErrorf ''value is not a float64'' e, sube)) values es
      else if vr = ''OW'' \<or> vr = ''OB''
        then (case es of (e, sube) \<Rightarrow>
               if length values \<noteq> 1 then Ok (Encoder_SetErrorf ''expect a single value'' e, sube)
               else (case values ! 0 of
                       VBytes bytes \<Rightarrow>
                         if vr = ''OW''
                         then (if length bytes mod 2 \<noteq> 0
                               then Ok (Encoder_SetErrorf ''expect a binary string of even length'' e, sube)
                               else (case OW_loop (length bytes div 2) sube
                                            (NewBytesDecoder bytes NativeByteOrder UnknownVR) of
                                       Panic \<Rightarrow> Panic
                                     | Ok (sube', d) \<Rightarrow>
                                         if \<not> (Finish d = None) then Panic else Ok (e, sube')))
                         else (let sube1 = WriteBytes bytes sube in
                               if length bytes mod 2 = 1
                               then (case WriteByte 0 sube1 of
                                       Panic \<Rightarrow> Panic
                                     | Ok sube2 \<Rightarrow> Ok (e, sube2))
                               else Ok (e, sube1))
                     | _ \<Rightarrow> Ok (Encoder_SetErrorf ''expect a binary string'' e, sube)))
      else if vr = ''UI''
        then (case es of (e, sube) \<Rightarrow>
               (case joinStrings tag values e of
                  Panic \<Rightarrow> Panic
                | Ok (e', s) \<Rightarrow>
                    let sube1 = WriteString s sube in
                    if length s mod 2 = 1
                    then (case WriteByte 0 sube1 of Panic \<Rightarrow> Panic | Ok sube2 \<Rightarrow> Ok (e', sube2))
                    else Ok (e', sube1)))
      else (case es of (e, sube) \<Rightarrow>
               (case joinStrings tag values e of
                  Panic \<Rightarrow> Panic
                | Ok (e', s) \<Rightarrow>
                    let sube1 = WriteString s sube in
                    if length s mod 2 = 1
                    then (case WriteByte (of_char (CHR '' '')) sube1 of
                            Panic \<Rightarrow> Panic
                          | Ok sube2 \<Rightarrow> Ok (e', sube2))
                    else Ok (e', sube1))))"

definition WriteElement_scalar ::
    "Tag \<Rightarrow> Value list \<Rightarrow> string \<Rightarrow> bool \<Rightarrow> Encoder \<Rightarrow> Encoder result" where
  "WriteElement_scalar tag values vr undefLen e =
     (if undefLen
      then Ok (Encoder_SetErrorf ''encoding an undefined-length element is not supported'' e)
      else (case WriteElement_values tag values vr
                   (e, NewBytesEncoder (fst (Encoder_TransferSyntax e)) (snd (Encoder_TransferSyntax e))) of
              Panic \<Rightarrow> Panic
            | Ok (e1, sube) \<Rightarrow>
                if Encoder_Error sube \<noteq> None then Ok (Encoder_SetError (Encoder_Error sube) e1)
                else (case Bytes sube of
                        Panic \<Rightarrow> Panic
                      | Ok bytes \<Rightarrow>
                          (case encodeElementHeader tag vr (of_nat (length bytes)) e1 of
                             Panic \<Rightarrow> Panic
                           | Ok e2 \<Rightarrow> Ok (WriteBytes bytes e2)))))"

text \<open>
  The body of \<open>WriteElement\<close>, with the two loops over the sub-elements as its first
  arguments: \<open>SQ_items target\<close> writes the items of a sequence to the encoder
  \<open>target\<close>, \<open>Item_elements target\<close> the elements of an item.  A loop returns the target
  with \<open>False\<close> when it met a value that it does not accept (the source then records an
  error on \<open>e\<close> and returns) and with \<open>True\<close> when it reached the end.  In the source
  each loop stands twice: with \<open>e\<close> itself as the target for an undefined length, with
  the sub-encoder \<open>sube\<close> for a defined length.
\<close>

definition WriteElement_body ::
    "(Encoder \<Rightarrow> (bool \<times> Encoder) result) \<Rightarrow> (Encoder \<Rightarrow> (bool \<times> Encoder) result)
     \<Rightarrow> tag_dict \<Rightarrow> Tag \<Rightarrow> Value list \<Rightarrow> string \<Rightarrow> bool \<Rightarrow> Encoder \<Rightarrow> Encoder result" where
  "WriteElement_body SQ_items Item_elements tagDict tag values elemVR undefLen e =
     (let found = Find tagDict tag;
          vr = (if elemVR = ''''
                then (case found of Some entry \<Rightarrow> ti_VR entry | None \<Rightarrow> ''UN'')
                else elemVR);
          dismatch = (elemVR \<noteq> '''' \<and>
                      (case found of
                         Some entry \<Rightarrow> ti_VR entry \<noteq> elemVR
                                       \<and> GetVRKind tag (ti_VR entry) \<noteq> GetVRKind tag elemVR
                       | None \<Rightarrow> False))
      in
      if dismatch then Ok (Encoder_SetErrorf ''dicom.WriteElement: VR value dismatch'' e)
      else if \<not> (vr \<noteq> '''') then Panic
      else if tag = PixelData then WriteElement_pixelData tag values vr undefLen e
      else if vr = ''SQ''
      then (if undefLen
            then (case encodeElementHeader tag vr UndefinedLength32 e of
                    Panic \<Rightarrow> Panic
                  | Ok e1 \<Rightarrow>
                      (case SQ_items e1 of
                         Panic \<Rightarrow> Panic
                       | Ok (False, e2) \<Rightarrow>
                           Ok (Encoder_SetError (Some (Errorf ''SQ element must be an Item'')) e2)
                       | Ok (True, e2) \<Rightarrow> encodeElementHeader SequenceDelimitationItem '''' 0 e2))
            else (case SQ_items (NewBytesEncoder (fst (Encoder_TransferSyntax e))
                                   (snd (Encoder_TransferSyntax e))) of
                    Panic \<Rightarrow> Panic
                  | Ok (False, sube) \<Rightarrow>
                      Ok (Encoder_SetError (Some (Errorf ''SQ element must be an Item'')) e)
                  | Ok (True, sube) \<Rightarrow>
                      if Encoder_Error sube \<noteq> None then Ok (Encoder_SetError (Encoder_Error sube) e)
                      else (case Bytes sube of
                              Panic \<Rightarrow> Panic
                            | Ok bytes \<Rightarrow>
                                (case encodeElementHeader tag vr (of_nat (length bytes)) e of
                                   Panic \<Rightarrow> Panic
                                 | Ok e1 \<Rightarrow> Ok (WriteBytes bytes e1)))))
      else if vr = ''NA''
      then (if undefLen
            then (case encodeElementHeader tag vr UndefinedLength32 e of
                    Panic \<Rightarrow> Panic
                  | Ok e1 \<Rightarrow>
                      (case Item_elements e1 of
                         Panic \<Rightarrow> Panic
                       | Ok (False, e2) \<Rightarrow>
                           Ok (Encoder_SetErrorf ''Item values must be a dicom.Element'' e2)
                       | Ok (True, e2) \<Rightarrow> encodeElementHeader ItemDelimitationItem '''' 0 e2))
            else (case Item_elements (NewBytesEncoder (fst (Encoder_TransferSyntax e))
                                        (snd (Encoder_TransferSyntax e))) of
                    Panic \<Rightarrow> Panic
                  | Ok (False, sube) \<Rightarrow>
                      Ok (Encoder_SetErrorf ''Item values must be a dicom.Element'' e)
                  | Ok (True, sube) \<Rightarrow>
                      if Encoder_Error sube \<noteq> None then Ok (Encoder_SetError (Encoder_Error sube) e)
                      else (case Bytes sube of
                              Panic \<Rightarrow> Panic
                            | Ok bytes \<Rightarrow>
                                (case encodeElementHeader tag vr (of_nat (length bytes)) e of
                                   Panic \<Rightarrow> Panic
                                 | Ok e1 \<Rightarrow> Ok (WriteBytes bytes e1)))))
      else WriteElement_scalar tag values vr undefLen e)"

fun WriteElement :: "tag_dict \<Rightarrow> Element \<Rightarrow> Encoder \<Rightarrow> Encoder result"
and writeSequenceItems :: "tag_dict \<Rightarrow> Value list \<Rightarrow> Encoder \<Rightarrow> (bool \<times> Encoder) result"
and writeItemElements :: "tag_dict \<Rightarrow> Value list \<Rightarrow> Encoder \<Rightarrow> (bool \<times> Encoder) result"
where
  "WriteElement tagDict (MkElement tag values elemVR undefLen) e =
     WriteElement_body (writeSequenceItems tagDict values) (writeItemElements tagDict values)
       tagDict tag values elemVR undefLen e"
| "writeSequenceItems tagDict [] target = Ok (True, target)"
| "writeSequenceItems tagDict (VElement subelem # rest) target =
     (if Tag subelem \<noteq> Item then Ok (False, target)
      else (case WriteElement tagDict subelem target of
              Panic \<Rightarrow> Panic
            | Ok target' \<Rightarrow> writeSequenceItems tagDict rest target'))"
| "writeSequenceItems tagDict (v # rest) target = Ok (False, target)"
| "writeItemElements tagDict [] target = Ok (True, target)"
| "writeItemElements tagDict (VElement subelem # rest) target =
     (case WriteElement tagDict subelem target of
        Panic \<Rightarrow> Panic
      | Ok target' \<Rightarrow> writeItemElements tagDict rest target')"
| "writeItemElements tagDict (v # rest) target = Ok (False, target)"

declare WriteElement.simps [simp del]

section \<open>Notions used to state the properties\<close>





text \<open>
  For the decoder: the result of a read with the error field of the decoder it returns
  replaced; a decoder with one unread byte and an error already recorded; sequences
  of \<open>PushLimit\<close> and \<open>PopLimit\<close> calls; and the position and limits of a decoder being
  in order: the position is not negative and not past the active limit, the bytes left
  in the stream do not take the position beyond \<open>2 ^ 62\<close>, and the saved limits
  followed by the active one descend (each window lies inside the enclosing one).
\<close>

definition with_err :: "error option \<Rightarrow> ('a \<times> Decoder) result \<Rightarrow> ('a \<times> Decoder) result" where
  "with_err x r = (case r of Panic \<Rightarrow> Panic | Ok (v, d) \<Rightarrow> Ok (v, d\<lparr>err := x\<rparr>))"

definition failedDecoder :: Decoder where
  "failedDecoder = SetError (Some io_EOF) (NewDecoder [0x2A] (Some LittleEndian) ExplicitVR)"

datatype limit_op = Push int64 | Pop

fun run_limit_ops :: "limit_op list \<Rightarrow> Decoder \<Rightarrow> Decoder result" where
  "run_limit_ops [] d = Ok d"
| "run_limit_ops (Push n # ops) d = run_limit_ops ops (PushLimit n d)"
| "run_limit_ops (Pop # ops) d =
     (case PopLimit d of Panic \<Rightarrow> Panic | Ok d' \<Rightarrow> run_limit_ops ops d')"

definition limits_nested :: "Decoder \<Rightarrow> bool" where
  "limits_nested d =
     sorted_wrt (\<lambda>outer inner. sint inner \<le> sint outer) (map se_limit (stateStack d) @ [limit d])"

definition position_ok :: "Decoder \<Rightarrow> bool" where
  "position_ok d =
     (0 \<le> sint (pos d) \<and> sint (pos d) \<le> sint (limit d)
      \<and> sint (pos d) + int (length (inp d)) < 2 ^ 62)"

definition byte_count_ok :: "limit_op \<Rightarrow> bool" where
  "byte_count_ok op = (case op of Push n \<Rightarrow> 0 \<le> sint n \<and> sint n < 2 ^ 62 | Pop \<Rightarrow> True)"

text \<open>
  Concrete decoders for the examples: a fresh decoder on four bytes, the decoder it
  becomes after \<open>Skip(2)\<close>, and the one after \<open>PushLimit(2)\<close>, \<open>PushLimit(5)\<close> and two
  \<open>PopLimit()\<close>.
\<close>

definition fourBytes :: Decoder where
  "fourBytes = NewDecoder [1, 2, 3, 4] (Some LittleEndian) ExplicitVR"

definition skipped2 :: Decoder where
  "skipped2 = fourBytes\<lparr>inp := [3, 4], pos := 2\<rparr>"

definition poppedTwice :: Decoder where
  "poppedTwice =
     fourBytes\<lparr>inp := [3, 4], pos := 2,
       err := Some (AtOffset (Errorf ''trying to read bytes beyond buffer end'') 0)\<rparr>"

text \<open>
  Explicit-VR headers as they stand in a stream after the tag: the VR \<open>UT\<close>, respectively
  \<open>UC\<close>, two reserved bytes and the undefined-length value \<open>FFFFFFFF\<close>; and the tag
  \<open>(0040,A160)\<close> they are read for.
\<close>

definition utHeader :: Decoder where
  "utHeader = NewDecoder [0x55, 0x54, 0, 0, 0xFF, 0xFF, 0xFF, 0xFF] (Some LittleEndian) ExplicitVR"

definition ucHeader :: Decoder where
  "ucHeader = NewDecoder [0x55, 0x43, 0, 0, 0xFF, 0xFF, 0xFF, 0xFF] (Some LittleEndian) ExplicitVR"

definition TextValue :: Tag where
  "TextValue = \<lparr>Group = 0x0040, Element = 0xA160\<rparr>"

text \<open>
  For the element reader: the element that \<open>ReadElement\<close> builds from the values its
  branch has read, and the read options and the body of the stop-at-tag scenario: the
  tag \<open>(0020,000D)\<close> to stop at, and three elements in explicit VR little endian,
  \<open>(0010,0010) LO "DOE^JOHN"\<close>, \<open>(0020,000D) UI "1"\<close> and \<open>(0020,000E) UI "2"\<close>.
\<close>

definition as_element ::
    "Tag \<Rightarrow> string \<Rightarrow> bool \<Rightarrow> (Value list \<times> Decoder) result option
       \<Rightarrow> (ReadResult \<times> Decoder) result option" where
  "as_element tag vr undefLen r =
     (case r of
        None \<Rightarrow> None
      | Some Panic \<Rightarrow> Some Panic
      | Some (Ok (data, d)) \<Rightarrow> Some (Ok (Elem (MkElement tag data vr undefLen), d)))"

definition StudyInstanceUID :: Tag where
  "StudyInstanceUID = \<lparr>Group = 0x0020, Element = 0x000D\<rparr>"

definition PatientName :: Tag where
  "PatientName = \<lparr>Group = 0x0010, Element = 0x0010\<rparr>"

definition stopAtStudy :: ReadOptions where
  "stopAtStudy = \<lparr>DropPixelData = False, ReturnTags = None, StopAtTag = Some StudyInstanceUID\<rparr>"

definition patientNameBytes :: "byte list" where
  "patientNameBytes =
     [0x10, 0x00, 0x10, 0x00, 0x4C, 0x4F, 0x08, 0x00,
      0x44, 0x4F, 0x45, 0x5E, 0x4A, 0x4F, 0x48, 0x4E]"

definition scenarioBody :: Decoder where
  "scenarioBody =
     NewDecoder
       (patientNameBytes
        @ [0x20, 0x00, 0x0D, 0x00, 0x55, 0x49, 0x02, 0x00, 0x31, 0x00,
           0x20, 0x00, 0x0E, 0x00, 0x55, 0x49, 0x02, 0x00, 0x32, 0x00])
       (Some LittleEndian) ExplicitVR"

definition patientNameElement :: Element where
  "patientNameElement = MkElement PatientName [VString ''DOE^JOHN''] ''LO'' False"

text \<open>
  For the element writer: a dictionary that holds the entry of the DICOM standard for
  \<open>PatientName\<close> and nothing else, and \<open>PixelData\<close> elements of defined length with no
  frame, with one frame of two bytes, and with two frames.
\<close>

definition patientNameDict :: tag_dict where
  "patientNameDict =
     (\<lambda>t. if t = PatientName
          then Some \<lparr>ti_Tag = PatientName, ti_VR = ''PN'', ti_Name = ''PatientName'', ti_VM = ''1''\<rparr>
          else None)"

definition pixelElement :: "byte list list \<Rightarrow> Element" where
  "pixelElement frames = MkElement PixelData [VPixelData \<lparr>Offsets = [], Frames = frames\<rparr>] ''OW'' False"

text \<open>
  The decoder of the stop-at-tag scenario after its first element, and after the tag
  of its second; the read options with \<open>DropPixelData\<close> and a tag to stop at that lies
  behind \<open>PixelData\<close>; a stream that is the tag \<open>PixelData\<close> alone; and an element
  \<open>(0028,0002) US 1\<close>, whose tag is behind \<open>(0020,000D)\<close> in tag order, with the
  greater group and the smaller element number.
\<close>

definition afterPatientName :: Decoder where
  "afterPatientName =
     (NewDecoder
        [0x20, 0x00, 0x0D, 0x00, 0x55, 0x49, 0x02, 0x00, 0x31, 0x00,
         0x20, 0x00, 0x0E, 0x00, 0x55, 0x49, 0x02, 0x00, 0x32, 0x00]
        (Some LittleEndian) ExplicitVR)\<lparr>pos := 16\<rparr>"

definition afterStudyTag :: Decoder where
  "afterStudyTag =
     (NewDecoder
        [0x55, 0x49, 0x02, 0x00, 0x31, 0x00,
         0x20, 0x00, 0x0E, 0x00, 0x55, 0x49, 0x02, 0x00, 0x32, 0x00]
        (Some LittleEndian) ExplicitVR)\<lparr>pos := 20\<rparr>"

definition atEnd :: "int64 \<Rightarrow> Decoder" where
  "atEnd n = (NewDecoder [] (Some LittleEndian) ExplicitVR)\<lparr>pos := n\<rparr>"

definition dropPixelsStopBehind :: ReadOptions where
  "dropPixelsStopBehind =
     \<lparr>DropPixelData = True, ReturnTags = None,
      StopAtTag = Some \<lparr>Group = 0x7FE0, Element = 0x0011\<rparr>\<rparr>"

definition pixelDataTag :: Decoder where
  "pixelDataTag = NewDecoder [0xE0, 0x7F, 0x10, 0x00] (Some LittleEndian) ExplicitVR"

definition SamplesPerPixel :: Tag where
  "SamplesPerPixel = \<lparr>Group = 0x0028, Element = 0x0002\<rparr>"

definition samplesPerPixel :: Decoder where
  "samplesPerPixel =
     NewDecoder [0x28, 0x00, 0x02, 0x00, 0x55, 0x53, 0x02, 0x00, 0x01, 0x00]
       (Some LittleEndian) ExplicitVR"

text \<open>
  Two streams in explicit VR little endian that differ in their tag only,
  \<open>(0008,1140)\<close> and \<open>PixelData\<close>: the header has the VR \<open>UN\<close> and the undefined length,
  and is followed by an item of length 0 and the sequence delimitation item.  With them
  the decoder after the tag, and after the header; and a dictionary that holds the
  entry of the DICOM standard for \<open>Item\<close> and nothing else.
\<close>

definition ReferencedImageSequence :: Tag where
  "ReferencedImageSequence = \<lparr>Group = 0x0008, Element = 0x1140\<rparr>"

definition emptyItemBytes :: "byte list" where
  "emptyItemBytes =
     [0xFE, 0xFF, 0x00, 0xE0, 0x00, 0x00, 0x00, 0x00,
      0xFE, 0xFF, 0xDD, 0xE0, 0x00, 0x00, 0x00, 0x00]"

definition unknownSequence :: Decoder where
  "unknownSequence =
     NewDecoder
       ([0x08, 0x00, 0x40, 0x11, 0x55, 0x4E, 0x00, 0x00, 0xFF, 0xFF, 0xFF, 0xFF] @ emptyItemBytes)
       (Some LittleEndian) ExplicitVR"

definition unknownPixelData :: Decoder where
  "unknownPixelData =
     NewDecoder
       ([0xE0, 0x7F, 0x10, 0x00, 0x55, 0x4E, 0x00, 0x00, 0xFF, 0xFF, 0xFF, 0xFF] @ emptyItemBytes)
       (Some LittleEndian) ExplicitVR"

definition afterUnknownTag :: Decoder where
  "afterUnknownTag =
     (NewDecoder ([0x55, 0x4E, 0x00, 0x00, 0xFF, 0xFF, 0xFF, 0xFF] @ emptyItemBytes)
        (Some LittleEndian) ExplicitVR)\<lparr>pos := 4\<rparr>"

definition afterUnknownHeader :: Decoder where
  "afterUnknownHeader = (NewDecoder emptyItemBytes (Some LittleEndian) ExplicitVR)\<lparr>pos := 12\<rparr>"

definition itemDict :: tag_dict where
  "itemDict =
     (\<lambda>t. if t = Item
          then Some \<lparr>ti_Tag = Item, ti_VR = ''NA'', ti_Name = ''Item'', ti_VM = ''1''\<rparr>
          else None)"

section \<open>Transfer-syntax resolver: properties\<close>

lemma CanonicalTransferSyntaxUID_unknown:
  assumes "Lookup uid = None"
    and "uid \<notin> {ImplicitVRLittleEndian, ExplicitVRLittleEndian, ExplicitVRBigEndian,
                 DeflatedExplicitVRLittleEndian}"
  shows "CanonicalTransferSyntaxUID Lookup uid = ('''', None)"
  using assms by (simp add: CanonicalTransferSyntaxUID_def)

lemma ParseTransferSyntaxUID_unknown:
  assumes "Lookup uid = None"
    and "uid \<notin> {ImplicitVRLittleEndian, ExplicitVRLittleEndian, ExplicitVRBigEndian,
                 DeflatedExplicitVRLittleEndian}"
  shows "ParseTransferSyntaxUID Lookup uid = Panic"
  using assms
  by (simp add: ParseTransferSyntaxUID_def CanonicalTransferSyntaxUID_def
      ImplicitVRLittleEndian_def ExplicitVRLittleEndian_def ExplicitVRBigEndian_def
      DeflatedExplicitVRLittleEndian_def)

lemma ParseTransferSyntaxUID_wrong_category:
  assumes "Lookup uid = Some e" and "Type e \<noteq> TypeTransferSyntax"
    and "uid \<notin> {ImplicitVRLittleEndian, ExplicitVRLittleEndian, ExplicitVRBigEndian,
                 DeflatedExplicitVRLittleEndian}"
  shows "\<exists>x. CanonicalTransferSyntaxUID Lookup uid = ('''', Some x)
           \<and> ParseTransferSyntaxUID Lookup uid = Ok (None, UnknownVR, Some x)"
  using assms
  by (simp add: ParseTransferSyntaxUID_def CanonicalTransferSyntaxUID_def)

text \<open>
  C2.  A UID of the wrong category is answered with an error (lemma
  \<open>ParseTransferSyntaxUID_wrong_category\<close>).  A UID that the registry does not know is
  not: for the UID \<open>9.9.9\<close> and a registry that knows no UID,
  \<open>CanonicalTransferSyntaxUID\<close> returns the empty string with a nil error, and
  \<open>ParseTransferSyntaxUID\<close> then panics on that empty canonical UID instead of
  returning an error.
\<close>

theorem unknown_uid_is_not_an_error:
  "CanonicalTransferSyntaxUID (\<lambda>uid. None) ''9.9.9'' = ('''', None)
   \<and> ParseTransferSyntaxUID (\<lambda>uid. None) ''9.9.9'' = Panic"
  by (simp add: ParseTransferSyntaxUID_def CanonicalTransferSyntaxUID_def
      ImplicitVRLittleEndian_def ExplicitVRLittleEndian_def ExplicitVRBigEndian_def
      DeflatedExplicitVRLittleEndian_def)

section \<open>Character-set resolver: properties\<close>








section \<open>Decoder: the end-of-input test\<close>

lemma sint_diff_nonneg:
  fixes a b :: int64
  assumes "0 \<le> sint a" "0 \<le> sint b"
  shows "sint (a - b) = sint a - sint b"
proof -
  have "sint a < 2 ^ 63" "sint b < 2 ^ 63"
    using sint_lt[of a] sint_lt[of b] by simp_all
  then show ?thesis using assms
    by (simp add: sint_word_ariths signed_take_bit_int_eq_self)
qed

text \<open>
  C9.  \<open>EOF()\<close> is true whenever an error is recorded, whatever remains to be read.
  Without an error it is true exactly when \<open>d.len()\<close>, the distance to the active limit,
  is not positive, or the stream has no byte left; for a position and a limit that are
  not negative, \<open>d.len()\<close> is not positive exactly when the position has reached the
  limit.
\<close>

theorem EOF_true_on_error_else_limit_or_end:
  "(err d \<noteq> None \<longrightarrow> Decoder_EOF d)
   \<and> (err d = None \<longrightarrow> (Decoder_EOF d \<longleftrightarrow> sint (Decoder_len d) \<le> 0 \<or> inp d = []))
   \<and> (err d = None \<and> 0 \<le> sint (pos d) \<and> 0 \<le> sint (limit d) \<longrightarrow>
        (Decoder_EOF d \<longleftrightarrow> sint (limit d) \<le> sint (pos d) \<or> inp d = []))"
  by (auto simp: Decoder_EOF_def Decoder_len_def sint_diff_nonneg)

theorem EOF_true_on_error_else_limit_or_end_witness:
  "err failedDecoder \<noteq> None \<and> inp failedDecoder = [0x2A]
   \<and> sint (pos failedDecoder) < sint (limit failedDecoder)
   \<and> Decoder_EOF failedDecoder
   \<and> \<not> Decoder_EOF (NewDecoder [0x2A] (Some LittleEndian) ExplicitVR)
   \<and> Decoder_EOF (NewDecoder [] (Some LittleEndian) ExplicitVR)"
  using EOF_true_on_error_else_limit_or_end[of failedDecoder]
    EOF_true_on_error_else_limit_or_end[of "NewDecoder [0x2A] (Some LittleEndian) ExplicitVR"]
    EOF_true_on_error_else_limit_or_end[of "NewDecoder [] (Some LittleEndian) ExplicitVR"]
  by (simp add: failedDecoder_def SetError_def NewDecoder_def MaxInt64_def Decoder_len_def)

section \<open>Decoder: the recorded error and the typed reads\<close>






lemma with_err_SetError:
  "with_err (Some e) (Ok (v, SetError x (d\<lparr>err := None\<rparr>))) = Ok (v, d\<lparr>err := Some e\<rparr>)"
  by (simp add: with_err_def SetError_def split: option.splits)



lemma failedDecoder_err: "err failedDecoder = Some io_EOF"
  by (simp add: failedDecoder_def SetError_def NewDecoder_def)



section \<open>Decoder: limit windows\<close>

lemma sint_add_of_nat:
  fixes a :: int64
  assumes "0 \<le> sint a" "sint a + int k < 2 ^ 62"
  shows "sint (a + of_nat k) = sint a + int k"
proof -
  have k: "int k < 2 ^ 62" using assms by linarith
  have "sint (of_nat k :: int64) = int k"
    using k by (simp add: signed_of_nat signed_take_bit_int_eq_self)
  then show ?thesis using assms k
    by (simp add: sint_word_ariths signed_take_bit_int_eq_self)
qed

lemma sint_add_small:
  fixes a n :: int64
  assumes "0 \<le> sint a" "sint a < 2 ^ 62" "0 \<le> sint n" "sint n < 2 ^ 62"
  shows "sint (a + n) = sint a + sint n"
  using assms by (simp add: sint_word_ariths signed_take_bit_int_eq_self)

lemma Decoder_Read_position:
  assumes "position_ok d" "Decoder_Read n d = Ok ((bs, e), d')"
  shows "position_ok d' \<and> limit d' = limit d \<and> stateStack d' = stateStack d
         \<and> sint (pos d) \<le> sint (pos d')"
proof (cases "bs = []")
  case True
  then show ?thesis using assms
    by (auto simp: Decoder_Read_def Let_def split: if_splits)
next
  case False
  have nn: "0 \<le> sint (pos d)" "0 \<le> sint (limit d)" using assms(1) by (auto simp: position_ok_def)
  have len: "sint (Decoder_len d) = sint (limit d) - sint (pos d)"
    unfolding Decoder_len_def using nn by (simp add: sint_diff_nonneg)
  obtain m where m: "bs = take m (inp d)" "int m \<le> sint (limit d) - sint (pos d)"
     "d' = d\<lparr>inp := drop m (inp d), pos := pos d + of_nat (length bs)\<rparr>"
    using assms(2) False len
    by (auto simp: Decoder_Read_def Let_def split: if_splits)
  have lb: "length bs \<le> m" "length bs \<le> length (inp d)" using m(1) by simp_all
  have "sint (pos d) + int (length bs) < 2 ^ 62"
    using assms(1) lb by (simp add: position_ok_def)
  then have p: "sint (pos d + of_nat (length bs)) = sint (pos d) + int (length bs)"
    using nn by (simp add: sint_add_of_nat)
  have "length (drop m (inp d)) + length bs = length (inp d)" using m(1) by simp
  then show ?thesis using assms(1) m p lb
    by (simp add: position_ok_def)
qed

lemma Skip_loop_position:
  "position_ok d \<Longrightarrow> Skip_loop j r d = Ok (r', d') \<Longrightarrow>
   position_ok d' \<and> limit d' = limit d \<and> stateStack d' = stateStack d"
proof (induction j r d rule: Skip_loop.induct)
  case (1 junkSize remaining d)
  note run = 1(3)[unfolded Skip_loop.simps[of junkSize remaining d]]
  show ?case
  proof (cases "0 < remaining")
    case False
    then show ?thesis using 1(2) run by simp
  next
    case True
    let ?n = "if remaining < junkSize then remaining else junkSize"
    obtain bs e d1 where rd: "Decoder_Read ?n d = Ok ((bs, e), d1)"
      using run True by (auto split: result.splits)
    have p1: "position_ok d1 \<and> limit d1 = limit d \<and> stateStack d1 = stateStack d"
      using Decoder_Read_position[OF 1(2) rd] by simp
    show ?thesis
    proof (cases "e \<noteq> None")
      case True
      then have "d' = SetError e d1" using run \<open>0 < remaining\<close> rd by simp
      then show ?thesis using p1
        by (auto simp: SetError_def position_ok_def split: option.splits)
    next
      case False
      then have pos: "0 < length bs" and rec: "Skip_loop junkSize (remaining - length bs) d1 = Ok (r', d')"
        using run True rd by (auto split: if_splits)
      have "position_ok d' \<and> limit d' = limit d1 \<and> stateStack d' = stateStack d1"
        using 1(1)[OF True rd[symmetric, THEN sym] refl refl _ _ _ rec] False pos p1 by simp
      then show ?thesis using p1 by simp
    qed
  qed
qed


lemma Skip_position:
  assumes "position_ok d" "Skip len d = Ok d'"
  shows "position_ok d' \<and> limit d' = limit d \<and> stateStack d' = stateStack d"
proof (cases "sint (Decoder_len d) < sint len")
  case True
  then have "d' = SetError (Some (Errorf ''Skip: requested more than available'')) d"
    using assms(2) by (simp add: Skip_def)
  then show ?thesis using assms(1) by (auto simp: SetError_def position_ok_def)
next
  case False
  then obtain j r where "Skip_loop j (nat (sint len)) d = Ok (r, d')"
    using assms(2) by (auto simp: Skip_def Let_def split: if_splits result.splits)
  then show ?thesis using Skip_loop_position[OF assms(1)] by blast
qed

lemma limits_nested_push:
  assumes "limits_nested d" "sint l \<le> sint (limit d)"
  shows "sorted_wrt (\<lambda>outer inner. sint inner \<le> sint outer)
           (map se_limit (stateStack d @ [\<lparr>se_limit = limit d, se_err = x\<rparr>]) @ [l])"
proof -
  have "\<forall>a\<in>set (map se_limit (stateStack d)). sint (limit d) \<le> sint a"
    using assms(1) by (auto simp: limits_nested_def sorted_wrt_append)
  then show ?thesis using assms
    by (auto simp: limits_nested_def sorted_wrt_append)
qed

lemma PushLimit_ok:
  assumes "position_ok d" "limits_nested d" "0 \<le> sint n" "sint n < 2 ^ 62"
  shows "position_ok (PushLimit n d) \<and> limits_nested (PushLimit n d)"
proof -
  have p: "0 \<le> sint (pos d)" "sint (pos d) < 2 ^ 62" "sint (pos d) \<le> sint (limit d)"
    using assms(1) by (auto simp: position_ok_def)
  have s: "sint (pos d + n) = sint (pos d) + sint n"
    using p assms(3,4) by (simp add: sint_add_small)
  show ?thesis
  proof (cases "sint (limit d) < sint (pos d + n)")
    case True
    then show ?thesis
      using assms(1) limits_nested_push[OF assms(2) p(3)]
      by (simp add: PushLimit_def Let_def SetError_def position_ok_def limits_nested_def)
  next
    case False
    then have le: "sint (pos d + n) \<le> sint (limit d)" by simp
    show ?thesis
      using False assms(1,3) s limits_nested_push[OF assms(2) le]
      by (simp add: PushLimit_def Let_def position_ok_def limits_nested_def)
  qed
qed

lemma PopLimit_ok:
  assumes "position_ok d" "limits_nested d" "PopLimit d = Ok d'"
  shows "position_ok d' \<and> limits_nested d'"
proof -
  obtain d1 where d1: "(if sint (pos d) < sint (limit d) then Skip (limit d - pos d) d else Ok d) = Ok d1"
    using assms(3) by (auto simp: PopLimit_def split: result.splits)
  have p1: "position_ok d1 \<and> limit d1 = limit d \<and> stateStack d1 = stateStack d"
    using d1 Skip_position[OF assms(1)] assms(1) by (auto split: if_splits)
  have ne: "stateStack d1 \<noteq> []" and d': "d' = d1\<lparr>limit := se_limit (last (stateStack d1)),
                         err := (if se_err (last (stateStack d1)) \<noteq> None
                                 then se_err (last (stateStack d1)) else err d1),
                         stateStack := butlast (stateStack d1)\<rparr>"
    using assms(3) d1 by (auto simp: PopLimit_def Let_def split: if_splits)
  obtain ys y where st: "stateStack d = ys @ [y]"
    using ne p1 by (metis append_butlast_last_id)
  have chain: "sorted_wrt (\<lambda>outer inner. sint inner \<le> sint outer) (map se_limit ys @ [se_limit y, limit d])"
    using assms(2) st by (simp add: limits_nested_def)
  then have le: "sint (limit d) \<le> sint (se_limit y)"
    by (simp add: sorted_wrt_append)
  have n': "sorted_wrt (\<lambda>outer inner. sint inner \<le> sint outer) (map se_limit ys @ [se_limit y])"
    using chain by (auto simp: sorted_wrt_append)
  have pl: "sint (pos d1) \<le> sint (se_limit y)"
    using p1 le by (auto simp: position_ok_def)
  show ?thesis using p1 d' st pl n'
    by (simp add: position_ok_def limits_nested_def)
qed

lemma run_limit_ops_ok:
  "position_ok d \<Longrightarrow> limits_nested d \<Longrightarrow> \<forall>op\<in>set ops. byte_count_ok op \<Longrightarrow>
   run_limit_ops ops d = Ok d' \<Longrightarrow> position_ok d' \<and> limits_nested d'"
proof (induction ops d rule: run_limit_ops.induct)
  case (1 d)
  then show ?case by simp
next
  case (2 n ops d)
  then show ?case using PushLimit_ok[of d n] by (simp add: byte_count_ok_def)
next
  case (3 ops d)
  then show ?case using PopLimit_ok[of d] by (auto split: result.splits)
qed

lemma PushLimit_exceeding:
  assumes "sint (limit d) < sint (pos d + n)"
  shows "limit (PushLimit n d) = pos d
     \<and> stateStack (PushLimit n d) \<noteq> []
     \<and> se_limit (last (stateStack (PushLimit n d))) = limit d
     \<and> se_err (last (stateStack (PushLimit n d))) \<noteq> None
     \<and> err (PushLimit n d) = None"
  using assms by (simp add: PushLimit_def Let_def SetError_def)

text \<open>
  C8.  As amended.  A \<open>PushLimit(n)\<close> whose window end, computed as \<open>pos + n\<close> in
  \<open>int64\<close> arithmetic, lies beyond the current limit makes the new limit the current
  position and records an error, which is saved with the enclosing limit on the stack
  (and restored by \<open>PopLimit\<close>).  For a decoder whose position and limits are in order
  and byte counts \<open>n\<close> with \<open>0 \<le> n < 2 ^ 62\<close>, every sequence of \<open>PushLimit\<close> and
  \<open>PopLimit\<close> calls that does not pop an empty stack leaves them in order: each active
  limit stays within every enclosing one.
\<close>

theorem limit_windows_nested:
  "(sint (limit d) < sint (pos d + n) \<longrightarrow>
       limit (PushLimit n d) = pos d
     \<and> stateStack (PushLimit n d) \<noteq> []
     \<and> se_limit (last (stateStack (PushLimit n d))) = limit d
     \<and> se_err (last (stateStack (PushLimit n d))) \<noteq> None)
   \<and> (position_ok d \<and> limits_nested d \<and> (\<forall>op\<in>set ops. byte_count_ok op)
        \<and> run_limit_ops ops d = Ok d' \<longrightarrow> position_ok d' \<and> limits_nested d')"
  using PushLimit_exceeding[of d n] run_limit_ops_ok[of d ops d'] by blast


lemma skipped2_reached: "Skip 2 fourBytes = Ok skipped2"
  by (simp add: skipped2_def fourBytes_def NewDecoder_def Skip_def Skip_loop.simps Decoder_len_def
      MaxInt64_def Decoder_Read_def Let_def)

text \<open>
  C8 as stated, for every decoder state and every sequence of calls, fails.  After
  \<open>Skip(2)\<close> on a fresh decoder, \<open>PushLimit(-1)\<close> sets the limit to 1, behind the
  position, and \<open>PushLimit(1)\<close> then clamps the new limit to the position 2, beyond the
  enclosing limit 1.  A byte count need not be negative for this: \<open>PushLimit(MaxInt64)\<close>
  overflows to a negative window end, is accepted without an error, and the next
  \<open>PushLimit(1)\<close> again ends beyond its enclosing limit.
\<close>

theorem limit_beyond_enclosing_counterexample:
  "Skip 2 fourBytes = Ok skipped2
   \<and> run_limit_ops [Push (- 1), Push 1] skipped2 = Ok (PushLimit 1 (PushLimit (- 1) skipped2))
   \<and> limit (PushLimit 1 (PushLimit (- 1) skipped2)) = 2
   \<and> se_limit (last (stateStack (PushLimit 1 (PushLimit (- 1) skipped2)))) = 1
   \<and> \<not> limits_nested (PushLimit 1 (PushLimit (- 1) skipped2))
   \<and> run_limit_ops [Push MaxInt64, Push 1] skipped2 = Ok (PushLimit 1 (PushLimit MaxInt64 skipped2))
   \<and> err (PushLimit MaxInt64 skipped2) = None
   \<and> stateStack (PushLimit MaxInt64 skipped2) = [\<lparr>se_limit = MaxInt64, se_err = None\<rparr>]
   \<and> limit (PushLimit MaxInt64 skipped2) = - 0x7FFFFFFFFFFFFFFF
   \<and> limit (PushLimit 1 (PushLimit MaxInt64 skipped2)) = 2
   \<and> \<not> limits_nested (PushLimit 1 (PushLimit MaxInt64 skipped2))"
  using skipped2_reached
  by (simp add: skipped2_def fourBytes_def NewDecoder_def PushLimit_def Let_def MaxInt64_def
      SetError_def limits_nested_def)

theorem limit_windows_nested_witness:
  "sint (limit (PushLimit 2 fourBytes)) < sint (pos (PushLimit 2 fourBytes) + 5)
   \<and> limit (PushLimit 5 (PushLimit 2 fourBytes)) = pos (PushLimit 2 fourBytes)
   \<and> se_err (last (stateStack (PushLimit 5 (PushLimit 2 fourBytes)))) \<noteq> None
   \<and> position_ok fourBytes \<and> limits_nested fourBytes
   \<and> list_all byte_count_ok [Push 2, Push 5, Pop, Pop]
   \<and> run_limit_ops [Push 2, Push 5, Pop, Pop] fourBytes = Ok poppedTwice
   \<and> position_ok poppedTwice \<and> limits_nested poppedTwice"
proof -
  have a: "sint (limit (PushLimit 2 fourBytes)) < sint (pos (PushLimit 2 fourBytes) + 5)"
    by (simp add: fourBytes_def NewDecoder_def PushLimit_def Let_def MaxInt64_def)
  have b: "position_ok fourBytes \<and> limits_nested fourBytes"
    by (simp add: fourBytes_def NewDecoder_def position_ok_def limits_nested_def MaxInt64_def)
  have c: "\<forall>op\<in>set [Push 2, Push 5, Pop, Pop]. byte_count_ok op"
    by (simp add: byte_count_ok_def)
  have d: "run_limit_ops [Push 2, Push 5, Pop, Pop] fourBytes = Ok poppedTwice"
    by (simp add: poppedTwice_def fourBytes_def NewDecoder_def PushLimit_def PopLimit_def Let_def
        MaxInt64_def SetError_def Skip_def Skip_loop.simps Decoder_len_def Decoder_Read_def)
  show ?thesis
    using limit_windows_nested[where d="PushLimit 2 fourBytes" and n=5 and ops="[]"
            and d'="PushLimit 2 fourBytes"]
      limit_windows_nested[where d=fourBytes and n=0 and ops="[Push 2, Push 5, Pop, Pop]"
            and d'=poppedTwice]
      a b c d by simp
qed

section \<open>Element reader: the explicit-VR header\<close>

lemmas decoder_eval =
  NewDecoder_def NewBytesDecoder_def ReadString_def internalReadString_def ReadBytes_def
  ReadBytes_loop.simps Decoder_Read_def Decoder_len_def MaxInt64_def Let_def noCodingSystem_def
  Skip_def Skip_loop.simps ReadUInt32_def ReadUInt16_def binary_Read_def io_ReadFull_def
  ReadFull_loop.simps order_Uint_def LittleEndian_Uint_def SetError_def SetErrorf_def
  string_of_bytes_def char_of_def bit_Suc_0_iff UndefinedLength32_def

lemma readExplicit_UC_UR_undefined:
  assumes "ReadString 2 d = Ok (vr, d1)" and "vr = ''UC'' \<or> vr = ''UR''"
    and "Skip 2 d1 = Ok d2" and "ReadUInt32 d2 = Ok (0xffffffff, d3)"
  shows "\<exists>d'. readExplicit tag d = Ok ((vr, 0), d') \<and> err d' \<noteq> None"
  using assms
  by (auto simp: readExplicit_def UndefinedLength32_def SetError_def SetErrorf_def)

lemma readExplicit_UT_undefined:
  assumes "ReadString 2 d = Ok (''UT'', d1)"
    and "Skip 2 d1 = Ok d2" and "ReadUInt32 d2 = Ok (0xffffffff, d3)"
  shows "readExplicit tag d = Ok ((''UT'', 0xffffffff), d3)"
  using assms by (simp add: readExplicit_def UndefinedLength32_def)

text \<open>
  C1.  For the VRs \<open>UC\<close> and \<open>UR\<close> an undefined length is recorded as an error and the
  length is zeroed (lemma \<open>readExplicit_UC_UR_undefined\<close>; here on the header \<open>UC\<close>).
  For \<open>UT\<close> it is not: the header \<open>UT 00 00 FF FF FF FF\<close> is returned as
  \<open>(UT, FFFFFFFF)\<close> and the decoder holds no error.
\<close>

theorem UT_undefined_length_accepted:
  "readExplicit TextValue utHeader = Ok ((''UT'', 0xffffffff), utHeader\<lparr>inp := [], pos := 8\<rparr>)
   \<and> err (utHeader\<lparr>inp := [], pos := 8\<rparr>) = None
   \<and> readExplicit TextValue ucHeader
       = Ok ((''UC'', 0),
             ucHeader\<lparr>inp := [], pos := 8,
               err := Some (AtOffset (Errorf ''UC, UR and UT may not have an undefined length'') 8)\<rparr>)"
  by (simp add: readExplicit_def utHeader_def ucHeader_def decoder_eval)

section \<open>Element writer: properties\<close>

lemma replicate_two: "replicate 2 x = [x, x]"
  by (simp add: numeral_2_eq_2)

lemmas encoder_eval = replicate_two
  NewBytesEncoder_def Encoder_TransferSyntax_def Encoder_Error_def Encoder_SetError_def
  Encoder_SetErrorf_def Bytes_def binary_Write_def WriteByte_def WriteUInt16_def WriteUInt32_def
  WriteString_def WriteZeros_def WriteBytes_def order_Put_def LittleEndian_Put_def
  bytes_of_string_def encodeElementHeader_def UndefinedLength32_def ItemSeqGroup_def Let_def

lemma GetVRKind_PixelData: "GetVRKind PixelData vr = VRPixelData"
  by (simp add: GetVRKind_def PixelData_def Item_def)

lemma WriteElement_PixelData:
  assumes "tag = PixelData"
  shows "WriteElement tagDict (MkElement tag values elemVR undefLen) e =
     (let vr = (if elemVR = []
                then (case Find tagDict tag of Some entry \<Rightarrow> ti_VR entry | None \<Rightarrow> ''UN'')
                else elemVR)
      in if vr = [] then Panic else WriteElement_pixelData tag values vr undefLen e)"
  using assms
  by (simp add: WriteElement.simps WriteElement_body_def GetVRKind_PixelData Let_def
      split: option.splits)

text \<open>
  C10.  A \<open>PixelData\<close> element with \<open>UndefinedLength = false\<close> whose \<open>PixelDataInfo\<close>
  does not hold exactly one frame makes \<open>WriteElement\<close> panic, whatever the encoder and
  the dictionary: the call does not return, and so returns no encoder with an error
  recorded on it.
\<close>

theorem PixelData_defined_length_needs_one_frame:
  assumes "Tag elem = PixelData" and "\<not> UndefinedLength elem"
    and "Value elem = VPixelData info # rest" and "length (Frames info) \<noteq> 1"
  shows "WriteElement tagDict elem e = Panic"
proof (cases elem)
  case (MkElement tag vals elemVR undefLen)
  then show ?thesis
    using assms
    by (simp add: WriteElement_PixelData WriteElement_pixelData_def Let_def)
qed

theorem PixelData_defined_length_needs_one_frame_witness:
  "WriteElement patientNameDict (pixelElement []) (NewBytesEncoder (Some LittleEndian) ExplicitVR) = Panic
   \<and> WriteElement patientNameDict (pixelElement [[1, 2], [3, 4]])
        (NewBytesEncoder (Some LittleEndian) ExplicitVR) = Panic"
  using PixelData_defined_length_needs_one_frame
          [where elem="pixelElement []" and info="\<lparr>Offsets = [], Frames = []\<rparr>"
             and rest="[]" and tagDict=patientNameDict
             and e="NewBytesEncoder (Some LittleEndian) ExplicitVR"]
        PixelData_defined_length_needs_one_frame
          [where elem="pixelElement [[1, 2], [3, 4]]"
             and info="\<lparr>Offsets = [], Frames = [[1, 2], [3, 4]]\<rparr>"
             and rest="[]" and tagDict=patientNameDict
             and e="NewBytesEncoder (Some LittleEndian) ExplicitVR"]
  by (simp add: pixelElement_def)

lemma PixelData_one_frame_written:
  "WriteElement patientNameDict (pixelElement [[1, 2]]) (NewBytesEncoder (Some LittleEndian) ExplicitVR)
   = Ok ((NewBytesEncoder (Some LittleEndian) ExplicitVR)
           \<lparr>out := [0xE0, 0x7F, 0x10, 0x00, 0x4F, 0x57, 0, 0, 2, 0, 0, 0, 1, 2]\<rparr>)"
  unfolding pixelElement_def
  by (subst WriteElement_PixelData)
     (simp_all add: WriteElement_pixelData_def PixelData_def encoder_eval upt_rec)

lemma Find_PatientName: "Find tagDict PatientName = tagDict PatientName"
  by (simp add: Find_def PatientName_def split: option.splits)

lemma WriteElement_values_LO:
  "WriteElement_values PatientName [VString ''DOE^JOHN''] ''LO'' (e, sube)
   = Ok (e, WriteString ''DOE^JOHN'' sube)"
  by (simp add: WriteElement_values_def joinStrings_def Let_def)

text \<open>
  C5.  Written to an encoder for explicit VR little endian, the element
  \<open>(0010,0010)\<close> with VR \<open>LO\<close> and the single value \<open>DOE^JOHN\<close> yields exactly the 16
  bytes \<open>10 00 10 00 4C 4F 08 00 44 4F 45 5E 4A 4F 48 4E\<close> and no error, for every
  dictionary that has no entry for the tag or an entry with a VR of the string-list
  kind (as \<open>PN\<close>, the VR of the DICOM standard, and \<open>LO\<close> are).
\<close>

theorem PatientName_explicit_little_endian_bytes:
  assumes "case tagDict PatientName of
             None \<Rightarrow> True
           | Some entry \<Rightarrow> GetVRKind PatientName (ti_VR entry) = VRStringList"
  shows "WriteElement tagDict patientNameElement (NewBytesEncoder (Some LittleEndian) ExplicitVR)
         = Ok ((NewBytesEncoder (Some LittleEndian) ExplicitVR)
                 \<lparr>out := [0x10, 0x00, 0x10, 0x00, 0x4C, 0x4F, 0x08, 0x00,
                           0x44, 0x4F, 0x45, 0x5E, 0x4A, 0x4F, 0x48, 0x4E]\<rparr>)"
proof -
  let ?e = "NewBytesEncoder (Some LittleEndian) ExplicitVR"
  have kind: "GetVRKind PatientName ''LO'' = VRStringList"
    by (simp add: GetVRKind_def PatientName_def Item_def PixelData_def)
  have tag: "PatientName \<noteq> PixelData"
    by (simp add: PatientName_def PixelData_def)
  have vr: "(if ''LO'' = [] then (case Find tagDict PatientName of Some entry \<Rightarrow> ti_VR entry
               | None \<Rightarrow> ''UN'') else ''LO'') = ''LO''"
    by simp
  have no_dismatch:
    "\<not> (''LO'' \<noteq> [] \<and> (case Find tagDict PatientName of
               Some entry \<Rightarrow> ti_VR entry \<noteq> ''LO''
                 \<and> GetVRKind PatientName (ti_VR entry) \<noteq> GetVRKind PatientName ''LO''
             | None \<Rightarrow> False))"
    using assms kind by (simp add: Find_PatientName split: option.splits)
  have payload_written: "WriteElement_values PatientName [VString ''DOE^JOHN''] ''LO'' (?e, ?e)
                = Ok (?e, WriteString ''DOE^JOHN'' ?e)"
    by (rule WriteElement_values_LO)
  have payload: "Bytes (WriteString ''DOE^JOHN'' ?e)
                 = Ok [0x44, 0x4F, 0x45, 0x5E, 0x4A, 0x4F, 0x48, 0x4E]"
    by (simp add: encoder_eval)
  have header: "encodeElementHeader PatientName ''LO'' 8 ?e
                = Ok (?e\<lparr>out := [0x10, 0x00, 0x10, 0x00, 0x4C, 0x4F, 0x08, 0x00]\<rparr>)"
    by (simp add: encoder_eval PatientName_def upt_rec)
  have scalar: "WriteElement_scalar PatientName [VString ''DOE^JOHN''] ''LO'' False ?e
                = Ok (?e\<lparr>out := [0x10, 0x00, 0x10, 0x00, 0x4C, 0x4F, 0x08, 0x00,
                                    0x44, 0x4F, 0x45, 0x5E, 0x4A, 0x4F, 0x48, 0x4E]\<rparr>)"
    unfolding WriteElement_scalar_def
    using payload_written payload header
    by (simp add: NewBytesEncoder_def Encoder_TransferSyntax_def Encoder_Error_def
        WriteString_def WriteBytes_def)
  show ?thesis
    unfolding patientNameElement_def WriteElement.simps WriteElement_body_def Let_def vr
    using no_dismatch tag scalar by simp
qed

theorem PatientName_explicit_little_endian_bytes_witness:
  "WriteElement patientNameDict patientNameElement (NewBytesEncoder (Some LittleEndian) ExplicitVR)
   = Ok ((NewBytesEncoder (Some LittleEndian) ExplicitVR)
           \<lparr>out := [0x10, 0x00, 0x10, 0x00, 0x4C, 0x4F, 0x08, 0x00,
                     0x44, 0x4F, 0x45, 0x5E, 0x4A, 0x4F, 0x48, 0x4E]\<rparr>)"
  using PatientName_explicit_little_endian_bytes[of patientNameDict]
  by (simp add: patientNameDict_def GetVRKind_def PatientName_def Item_def PixelData_def)

lemma PatientName_other_kind_rejected:
  assumes "tagDict PatientName = Some entry"
    and "GetVRKind PatientName (ti_VR entry) \<noteq> VRStringList"
  shows "WriteElement tagDict patientNameElement e
         = Ok (Encoder_SetErrorf ''dicom.WriteElement: VR value dismatch'' e)"
proof -
  have kind: "GetVRKind PatientName ''LO'' = VRStringList"
    by (simp add: GetVRKind_def PatientName_def Item_def PixelData_def)
  show ?thesis
    using assms kind
    by (auto simp: patientNameElement_def WriteElement.simps WriteElement_body_def
        Find_PatientName Let_def)
qed

section \<open>ReadElement: the end-of-data element and the promotion of UN\<close>

lemmas element_eval =
  readTag_def ReadElement_header_def readExplicit_def readImplicit_def TransferSyntax_def
  ItemSeqGroup_def PixelData_def Item_def SequenceDelimitationItem_def
  ItemDelimitationItem_def SpecificCharacterSet_def PushLimit_def PopLimit_def
  Decoder_EOF_def BytesRead_def Find_def

lemmas ReadElement_eval =
  ReadElement_body_def ReadElement_data_def ReadElement_scalar_def ReadElement_values_def
  strings_Trim_def SQ_undefined_body_def SQ_defined_body_def Item_undefined_body_def
  Item_defined_body_def deref_def noReadOptions_def

subsection \<open>The two early returns\<close>

lemma ReadElement_stops:
  assumes "readTag d = Ok (tag, d1)"
    and "tag = PixelData \<and> DropPixelData options
         \<or> (case StopAtTag options of None \<Rightarrow> False
             | Some stop \<Rightarrow> Group stop \<le> Group tag \<and> Element stop \<le> Element tag)"
  shows "ReadElement (Suc fuel) tagDict options d = Some (Ok (EndOfDataElement, d1))"
  using assms by (auto simp: ReadElement_body_def)

lemma ReadElement_goes_on:
  assumes "readTag d = Ok (tag, d1)"
    and "\<not> (tag = PixelData \<and> DropPixelData options)"
    and "\<not> (case StopAtTag options of None \<Rightarrow> False
             | Some stop \<Rightarrow> Group stop \<le> Group tag \<and> Element stop \<le> Element tag)"
  shows "ReadElement (Suc fuel) tagDict options d \<noteq> Some (Ok (EndOfDataElement, d'))"
proof (cases "ReadElement_header tagDict tag d1")
  case Panic
  then show ?thesis using assms by (auto simp: ReadElement_body_def)
next
  case (Ok r)
  obtain vr0 vl d2 where r: "r = ((vr0, vl), d2)" by (cases r) auto
  show ?thesis
    using assms Ok r
    by (auto simp: ReadElement_body_def Let_def split: option.splits result.splits prod.splits)
qed

lemma ReadDataSet_stops_at_second:
  assumes "StopAtTag options = Some stop" and "ReturnTags options = None"
    and "\<not> Decoder_EOF b0"
    and "ReadElement (Suc (Suc fuel)) tagDict options b0 = Some (Ok (Elem e, b1))"
    and "Tag e \<noteq> SpecificCharacterSet"
    and "sint (BytesRead b0) < sint (BytesRead b1)"
    and "\<not> Decoder_EOF b1"
    and "readTag b1 = Ok (tag, b2)"
    and "Group stop \<le> Group tag \<and> Element stop \<le> Element tag"
    and "sint (BytesRead b1) < sint (BytesRead b2)"
  shows "ReadDataSet_loop (Suc (Suc (Suc fuel))) tagDict htmlindex_Get options elements b0
           = Some (Ok (elements @ [e], b2))"
proof -
  have second: "ReadElement (Suc fuel) tagDict options b1 = Some (Ok (EndOfDataElement, b2))"
    using assms(1,8,9) by (intro ReadElement_stops) auto
  have "ReadDataSet_loop (Suc (Suc fuel)) tagDict htmlindex_Get options (elements @ [e]) b1
          = Some (Ok (elements @ [e], b2))"
    using assms(7,10) second
    by (simp add: ReadDataSet_body_def Let_def del: ReadElement.simps)
  then show ?thesis
    using assms(2,3,4,5,6)
    by (simp add: ReadDataSet_body_def Let_def del: ReadElement.simps)
qed

lemma readTag_afterPatientName: "readTag afterPatientName = Ok (StudyInstanceUID, afterStudyTag)"
  by (simp add: afterPatientName_def afterStudyTag_def StudyInstanceUID_def decoder_eval element_eval)

lemma ReadElement_scenarioBody:
  "ReadElement (Suc (Suc 0)) Map.empty stopAtStudy scenarioBody
     = Some (Ok (Elem patientNameElement, afterPatientName))"
  by (simp add: ReadElement_eval scenarioBody_def patientNameBytes_def stopAtStudy_def
        StudyInstanceUID_def patientNameElement_def PatientName_def afterPatientName_def
        decoder_eval element_eval)

lemma ReadElement_samplesPerPixel:
  "ReadElement (Suc 0) Map.empty stopAtStudy samplesPerPixel
     = Some (Ok (Elem (MkElement SamplesPerPixel [VUInt16 1] ''US'' False), atEnd 10))"
  by (simp add: samplesPerPixel_def SamplesPerPixel_def stopAtStudy_def StudyInstanceUID_def
        atEnd_def ReadElement_eval US_loop.simps decoder_eval element_eval)

text \<open>
  C3.  As amended.  For the tag that \<open>readTag\<close> reads and options with \<open>StopAtTag\<close> set,
  \<open>ReadElement\<close> returns the end-of-data element, with the decoder just behind the tag,
  exactly when the tag satisfies the test on each field, \<open>stop.Group \<le> tag.Group\<close> and
  \<open>stop.Element \<le> tag.Element\<close>, or is \<open>PixelData\<close> with \<open>DropPixelData\<close> set as well.
  In particular, with the options \<open>StopAtTag = (0020,000D)\<close> and nothing else, on a body
  whose first element has the tag \<open>(0010,0010)\<close> and is followed by the tag
  \<open>(0020,000D)\<close>, the loop of \<open>ReadDataSet\<close> ends at the second element and has added
  the first element only.
\<close>

theorem stop_at_tag_test_on_each_field:
  "(readTag d = Ok (tag, behind) \<and> StopAtTag options = Some stop \<longrightarrow>
      (ReadElement (Suc fuel) tagDict options d = Some (Ok (EndOfDataElement, d'))
       \<longleftrightarrow> d' = behind \<and> (Group stop \<le> Group tag \<and> Element stop \<le> Element tag
                       \<or> tag = PixelData \<and> DropPixelData options)))
   \<and> (\<not> Decoder_EOF buffer
        \<and> ReadElement (Suc (Suc fuel)) tagDict stopAtStudy buffer = Some (Ok (Elem e, next_buffer))
        \<and> Tag e = PatientName
        \<and> sint (BytesRead buffer) < sint (BytesRead next_buffer)
        \<and> \<not> Decoder_EOF next_buffer
        \<and> readTag next_buffer = Ok (StudyInstanceUID, stopped)
        \<and> sint (BytesRead next_buffer) < sint (BytesRead stopped) \<longrightarrow>
      ReadDataSet_loop (Suc (Suc (Suc fuel))) tagDict htmlindex_Get stopAtStudy elements buffer
        = Some (Ok (elements @ [e], stopped)))"
proof (intro conjI impI)
  assume a: "readTag d = Ok (tag, behind) \<and> StopAtTag options = Some stop"
  show "ReadElement (Suc fuel) tagDict options d = Some (Ok (EndOfDataElement, d'))
        \<longleftrightarrow> d' = behind \<and> (Group stop \<le> Group tag \<and> Element stop \<le> Element tag
                        \<or> tag = PixelData \<and> DropPixelData options)"
  proof (cases "Group stop \<le> Group tag \<and> Element stop \<le> Element tag
                \<or> tag = PixelData \<and> DropPixelData options")
    case True
    then have "ReadElement (Suc fuel) tagDict options d = Some (Ok (EndOfDataElement, behind))"
      using a by (intro ReadElement_stops) auto
    then show ?thesis using True by auto
  next
    case False
    then have "ReadElement (Suc fuel) tagDict options d \<noteq> Some (Ok (EndOfDataElement, d'))"
      using a by (intro ReadElement_goes_on) auto
    then show ?thesis using False by auto
  qed
next
  assume b: "\<not> Decoder_EOF buffer
        \<and> ReadElement (Suc (Suc fuel)) tagDict stopAtStudy buffer = Some (Ok (Elem e, next_buffer))
        \<and> Tag e = PatientName
        \<and> sint (BytesRead buffer) < sint (BytesRead next_buffer)
        \<and> \<not> Decoder_EOF next_buffer
        \<and> readTag next_buffer = Ok (StudyInstanceUID, stopped)
        \<and> sint (BytesRead next_buffer) < sint (BytesRead stopped)"
  have "Tag e \<noteq> SpecificCharacterSet"
    using b by (simp add: PatientName_def SpecificCharacterSet_def)
  then show "ReadDataSet_loop (Suc (Suc (Suc fuel))) tagDict htmlindex_Get stopAtStudy elements buffer
        = Some (Ok (elements @ [e], stopped))"
    using b
    by (intro ReadDataSet_stops_at_second[where stop = StudyInstanceUID and tag = StudyInstanceUID])
       (auto simp: stopAtStudy_def)
qed

text \<open>
  The scenario of C3 on a concrete body, \<open>(0010,0010) LO "DOE^JOHN"\<close>,
  \<open>(0020,000D) UI "1"\<close>, \<open>(0020,000E) UI "2"\<close>: the second element gives the end-of-data
  element, and the loop of \<open>ReadDataSet\<close> returns the first element alone.  The test is
  not the tag order: \<open>(0028,0002)\<close> lies behind \<open>(0020,000D)\<close> and is read as an element.
\<close>

theorem stop_at_tag_test_on_each_field_witness:
  "ReadElement (Suc 0) Map.empty stopAtStudy afterPatientName
     = Some (Ok (EndOfDataElement, afterStudyTag))
   \<and> ReadDataSet_loop (Suc (Suc (Suc 0))) Map.empty (\<lambda>name. None) stopAtStudy [] scenarioBody
     = Some (Ok ([patientNameElement], afterStudyTag))
   \<and> ReadElement (Suc 0) Map.empty stopAtStudy samplesPerPixel
     = Some (Ok (Elem (MkElement SamplesPerPixel [VUInt16 1] ''US'' False), atEnd 10))"
proof -
  note inst = stop_at_tag_test_on_each_field[where d = afterPatientName and tag = StudyInstanceUID
      and behind = afterStudyTag and options = stopAtStudy and stop = StudyInstanceUID and fuel = 0
      and tagDict = Map.empty and d' = afterStudyTag and buffer = scenarioBody
      and e = patientNameElement and next_buffer = afterPatientName and stopped = afterStudyTag
      and elements = "[]" and htmlindex_Get = "\<lambda>name. None"]
  have first: "ReadElement (Suc 0) Map.empty stopAtStudy afterPatientName
                 = Some (Ok (EndOfDataElement, afterStudyTag))"
    using inst readTag_afterPatientName
    by (simp add: stopAtStudy_def del: ReadElement.simps)
  have "\<not> Decoder_EOF scenarioBody" "\<not> Decoder_EOF afterPatientName"
    "sint (BytesRead scenarioBody) < sint (BytesRead afterPatientName)"
    "sint (BytesRead afterPatientName) < sint (BytesRead afterStudyTag)"
    "Tag patientNameElement = PatientName"
    by (simp_all add: scenarioBody_def patientNameBytes_def afterPatientName_def afterStudyTag_def
          patientNameElement_def Decoder_EOF_def BytesRead_def NewDecoder_def NewBytesDecoder_def
          MaxInt64_def)
  then have second:
    "ReadDataSet_loop (Suc (Suc (Suc 0))) Map.empty (\<lambda>name. None) stopAtStudy [] scenarioBody
       = Some (Ok ([patientNameElement], afterStudyTag))"
    using inst readTag_afterPatientName ReadElement_scenarioBody
    by (simp del: ReadElement.simps ReadDataSet_loop.simps)
  show ?thesis
    using first second ReadElement_samplesPerPixel by (simp del: ReadElement.simps ReadDataSet_loop.simps)
qed

text \<open>
  C3 as stated, for every setting of the options, fails: with \<open>DropPixelData\<close> set as
  well and the tag to stop at \<open>(7FE0,0011)\<close>, the tag \<open>PixelData = (7FE0,0010)\<close> has the
  smaller element number and does not satisfy the test, and \<open>ReadElement\<close> returns the
  end-of-data element.
\<close>

theorem sentinel_without_stop_test_counterexample:
  "StopAtTag dropPixelsStopBehind = Some \<lparr>Group = 0x7FE0, Element = 0x0011\<rparr>
   \<and> readTag pixelDataTag = Ok (PixelData, atEnd 4)
   \<and> Element PixelData < 0x0011
   \<and> ReadElement (Suc 0) Map.empty dropPixelsStopBehind pixelDataTag
     = Some (Ok (EndOfDataElement, atEnd 4))"
  by (simp add: dropPixelsStopBehind_def pixelDataTag_def atEnd_def ReadElement_eval
        decoder_eval element_eval)

subsection \<open>The promotion of UN with an undefined length\<close>

lemma readTag_unknownSequence:
  "readTag unknownSequence = Ok (ReferencedImageSequence, afterUnknownTag)"
  by (simp add: unknownSequence_def afterUnknownTag_def ReferencedImageSequence_def
        emptyItemBytes_def decoder_eval element_eval)

lemma ReadElement_header_unknownSequence:
  "ReadElement_header Map.empty ReferencedImageSequence afterUnknownTag
     = Ok ((''UN'', UndefinedLength32), afterUnknownHeader)"
  by (simp add: afterUnknownHeader_def afterUnknownTag_def ReferencedImageSequence_def
        emptyItemBytes_def decoder_eval element_eval)

lemma SQ_undefined_loop_unknownSequence:
  "SQ_undefined_loop (Suc (Suc (Suc 0))) Map.empty [] afterUnknownHeader
     = Some (Ok ([VElement (MkElement Item [] ''UN'' False)], atEnd 28))"
  by (simp add: afterUnknownHeader_def atEnd_def emptyItemBytes_def ReadElement_eval
        decoder_eval element_eval)

text \<open>
  C7.  As amended.  When the header of an element is read with the VR \<open>UN\<close> and the
  undefined length \<open>FFFFFFFF\<close>, \<open>ReadElement\<close> takes the VR to be \<open>SQ\<close>: the element it
  returns has the VR \<open>SQ\<close> and \<open>UndefinedLength\<close> set, and its values are the items that
  the loop for a sequence of undefined length reads behind the header, unless the tag
  is \<open>PixelData\<close>, whose values are read as encapsulated pixel data.  (The function
  \<open>as_element\<close> makes the element of the values read, and passes on a panic.)
\<close>

theorem UN_undefined_length_read_as_SQ:
  assumes "readTag d = Ok (tag, d1)"
    and "\<not> (tag = PixelData \<and> DropPixelData options)"
    and "\<not> (case StopAtTag options of None \<Rightarrow> False
             | Some stop \<Rightarrow> Group stop \<le> Group tag \<and> Element stop \<le> Element tag)"
    and "ReadElement_header tagDict tag d1 = Ok ((''UN'', UndefinedLength32), d2)"
  shows "ReadElement (Suc fuel) tagDict options d =
           as_element tag ''SQ'' True
             (if tag = PixelData then Some (ReadElement_pixelData tagDict UndefinedLength32 d2)
              else SQ_undefined_loop fuel tagDict [] d2)"
  using assms
  by (auto simp: ReadElement_body_def ReadElement_data_def as_element_def Let_def
           split: option.splits result.splits prod.splits)

text \<open>
  C7 on a concrete stream: the element \<open>(0008,1140)\<close> with the VR \<open>UN\<close>, the undefined
  length, an item of length 0 and the sequence delimitation item is returned as a
  sequence of undefined length with that item.
\<close>

theorem UN_undefined_length_read_as_SQ_witness:
  "readTag unknownSequence = Ok (ReferencedImageSequence, afterUnknownTag)
   \<and> ReadElement_header Map.empty ReferencedImageSequence afterUnknownTag
     = Ok ((''UN'', UndefinedLength32), afterUnknownHeader)
   \<and> ReadElement (Suc (Suc (Suc (Suc 0)))) Map.empty noReadOptions unknownSequence
     = Some (Ok (Elem (MkElement ReferencedImageSequence
                         [VElement (MkElement Item [] ''UN'' False)] ''SQ'' True),
                 atEnd 28))"
proof -
  have "ReadElement (Suc (Suc (Suc (Suc 0)))) Map.empty noReadOptions unknownSequence
          = as_element ReferencedImageSequence ''SQ'' True
              (if ReferencedImageSequence = PixelData
               then Some (ReadElement_pixelData Map.empty UndefinedLength32 afterUnknownHeader)
               else SQ_undefined_loop (Suc (Suc (Suc 0))) Map.empty [] afterUnknownHeader)"
    by (rule UN_undefined_length_read_as_SQ[OF readTag_unknownSequence _ _
          ReadElement_header_unknownSequence])
       (simp_all add: noReadOptions_def ReferencedImageSequence_def PixelData_def)
  moreover have "ReferencedImageSequence \<noteq> PixelData"
    by (simp add: ReferencedImageSequence_def PixelData_def)
  ultimately show ?thesis
    using readTag_unknownSequence ReadElement_header_unknownSequence
      SQ_undefined_loop_unknownSequence
    by (simp add: as_element_def del: ReadElement.simps)
qed

text \<open>
  C7 as stated, for every element, fails for the tag \<open>PixelData\<close>: the same bytes behind
  the tag \<open>PixelData\<close> give an element with the VR \<open>SQ\<close> whose value is not a sequence
  of items but a \<open>PixelDataInfo\<close>, read by \<open>readBasicOffsetTable\<close> and \<open>readRawItem\<close>
  (no fuel is needed for an item).
\<close>

theorem UN_undefined_PixelData_counterexample:
  "readTag unknownPixelData = Ok (PixelData, afterUnknownTag)
   \<and> ReadElement_header itemDict PixelData afterUnknownTag
     = Ok ((''UN'', UndefinedLength32), afterUnknownHeader)
   \<and> ReadElement (Suc 0) itemDict noReadOptions unknownPixelData
     = Some (Ok (Elem (MkElement PixelData [VPixelData \<lparr>Offsets = [0], Frames = []\<rparr>] ''SQ'' True),
                 atEnd 28))"
  by (simp add: unknownPixelData_def afterUnknownTag_def afterUnknownHeader_def atEnd_def
        emptyItemBytes_def itemDict_def ReadElement_eval ReadElement_pixelData_def
        readBasicOffsetTable_def readRawItem_def readPixelFrames.simps decoder_eval element_eval)

end
